theory Spec2Isabelle
  imports Complex_Main
begin

section \<open>Tensors and trees of tensors\<close>

text \<open>
  Modelled from the spec: the named-dimension tensor algebra (\<open>Tensor\<close>, \<open>Shape\<close>,
  \<open>reshaped_native\<close>, \<open>reshaped_tensor\<close>, \<open>stack\<close>, \<open>all_available\<close>) is not part of the
  sources of \<open>_optimize.py\<close>. A tensor is kept in the canonical layout the dispatcher hands to
  a backend: the sizes of its non-batch dimensions and one row of entries per batch element.
  A tensor that is still traced has no entries (\<open>Symbolic\<close>); a recorded trajectory has one
  more, leading batch dimension named \<open>trajectory\<close> (\<open>Trajectory\<close>). In this layout
  \<open>reshaped_native\<close> and \<open>reshaped_tensor\<close> only relabel dimensions, so native arrays and
  tensors share the type. A float is the real number it stands for (there is no NaN);
  the cast to the float precision in force is part of the state, see below.
\<close>

datatype 'a tensor =
    Symbolic "nat list"
  | Values "nat list" "'a list list"
  | Trajectory "nat list" "'a list list list"

fun non_batch :: "'a tensor \<Rightarrow> nat list" where
  "non_batch (Symbolic nb) = nb"
| "non_batch (Values nb rows) = nb"
| "non_batch (Trajectory nb steps) = nb"

fun available :: "'a tensor \<Rightarrow> bool" where
  "available (Symbolic nb) = False"
| "available (Values nb rows) = True"
| "available (Trajectory nb steps) = True"

definition all_available :: "'a tensor list \<Rightarrow> bool" where
  "all_available ts = list_all available ts"

fun has_trajectory :: "'a tensor \<Rightarrow> bool" where
  "has_trajectory (Trajectory nb steps) = True"
| "has_trajectory (Symbolic nb) = False"
| "has_trajectory (Values nb rows) = False"

fun entries :: "'a tensor \<Rightarrow> 'a list" where
  "entries (Symbolic nb) = []"
| "entries (Values nb rows) = concat rows"
| "entries (Trajectory nb steps) = concat (concat steps)"

text \<open>The properties \<open>Tensor.any\<close> and \<open>Tensor.all\<close> of a boolean tensor.\<close>

definition any_t :: "bool tensor \<Rightarrow> bool" where
  "any_t t = list_ex (\<lambda>b. b) (entries t)"

definition all_t :: "bool tensor \<Rightarrow> bool" where
  "all_t t = list_all (\<lambda>b. b) (entries t)"

text \<open>
  Entrywise operations broadcast: two lists of one length are combined entry by entry, and
  a list with a single entry is combined with every entry of the other. \<open>None\<close> stands
  for shapes that do not fit.
\<close>

definition zip_broadcast :: "('a \<Rightarrow> 'b \<Rightarrow> 'c option) \<Rightarrow> 'a list \<Rightarrow> 'b list \<Rightarrow> 'c list option" where
  "zip_broadcast g as bs =
     (if length as = length bs then those (map (\<lambda>(a, b). g a b) (zip as bs))
      else if length as = 1 then those (map (g (hd as)) bs)
      else if length bs = 1 then those (map (\<lambda>a. g a (hd bs)) as)
      else None)"

definition ne_rows :: "'a list list \<Rightarrow> 'a list list \<Rightarrow> bool list list option" where
  "ne_rows = zip_broadcast (zip_broadcast (\<lambda>a b. Some (a \<noteq> b)))"

fun steps_of :: "'a tensor \<Rightarrow> 'a list list list option" where
  "steps_of (Symbolic nb) = None"
| "steps_of (Values nb rows) = Some [rows]"
| "steps_of (Trajectory nb steps) = Some steps"

text \<open>Two tensors with entries, the same non-batch dimensions and rows of the same lengths.\<close>

fun same_shape :: "'a tensor \<Rightarrow> 'a tensor \<Rightarrow> bool" where
  "same_shape (Values nb rows) (Values nb' rows') = (nb = nb' \<and> map length rows = map length rows')"
| "same_shape a b = False"

text \<open>
  A value that is a Python number or a tensor, as the arguments \<open>float or Tensor\<close> and
  \<open>int or Tensor\<close> of the constructor of \<open>Solve\<close> are. \<open>wrap\<close> makes a tensor of it.
\<close>

datatype 'a py_value = PyNumber 'a | PyTensor "'a tensor"

fun wrap :: "'a py_value \<Rightarrow> 'a tensor" where
  "wrap (PyNumber v) = Values [] [[v]]"
| "wrap (PyTensor t) = t"

text \<open>
  Modelled from the spec: \<open>math.to_float(wrap(v))\<close> and \<open>math.to_int32(wrap(v))\<close>,
  defined outside \<open>_optimize.py\<close>. A Python number is wrapped and
  cast: a float by the cast of the precision in force, an integer to 32 bits, which wraps
  around. A tensor given in their place is taken to hold values of the target type
  already, as the fields of a \<open>Solve\<close> do; on those the casts are the identity.
\<close>

fun wrap_to_float :: "(real \<Rightarrow> real) \<Rightarrow> real py_value \<Rightarrow> real tensor" where
  "wrap_to_float cast (PyNumber v) = Values [] [[cast v]]"
| "wrap_to_float cast (PyTensor t) = t"

definition int32 :: "int \<Rightarrow> int" where
  "int32 i = (i + 2 ^ 31) mod 2 ^ 32 - 2 ^ 31"

fun wrap_to_int32 :: "int py_value \<Rightarrow> int tensor" where
  "wrap_to_int32 (PyNumber i) = Values [] [[int32 i]]"
| "wrap_to_int32 (PyTensor t) = t"

text \<open>Python's \<open>xs[i]\<close>: a negative index counts from the end, \<open>None\<close> is IndexError.\<close>

definition py_index :: "'a list \<Rightarrow> int \<Rightarrow> 'a option" where
  "py_index xs i =
     (if 0 \<le> i \<and> i < int (length xs) then Some (xs ! nat i)
      else if i < 0 \<and> - int (length xs) \<le> i then Some (xs ! nat (int (length xs) + i))
      else None)"

text \<open>
  \<open>t.trajectory[index]\<close>: slicing a dimension the tensor does not have returns the tensor
  itself; on a trajectory it selects one step (\<open>None\<close> is IndexError).
\<close>

fun trajectory_at :: "'a tensor \<Rightarrow> int \<Rightarrow> 'a tensor option" where
  "trajectory_at (Symbolic nb) i = Some (Symbolic nb)"
| "trajectory_at (Values nb rows) i = Some (Values nb rows)"
| "trajectory_at (Trajectory nb steps) i = map_option (Values nb) (py_index steps i)"

text \<open>\<open>stack(values, batch('trajectory'))\<close> of per-step tensors.\<close>

fun rows_of :: "'a tensor \<Rightarrow> 'a list list option" where
  "rows_of (Values nb rows) = Some rows"
| "rows_of (Symbolic nb) = None"
| "rows_of (Trajectory nb steps) = None"

fun those_rows :: "'a tensor list \<Rightarrow> 'a list list list option" where
  "those_rows [] = Some []"
| "those_rows (t # ts) =
     (case rows_of t of None \<Rightarrow> None
      | Some r \<Rightarrow> (case those_rows ts of None \<Rightarrow> None | Some rs \<Rightarrow> Some (r # rs)))"

definition stack_trajectory :: "'a tensor list \<Rightarrow> 'a tensor" where
  "stack_trajectory ts =
     (let nb = (case ts of [] \<Rightarrow> [] | t # _ \<Rightarrow> non_batch t)
      in case those_rows ts of None \<Rightarrow> Symbolic nb | Some steps \<Rightarrow> Trajectory nb steps)"

text \<open>
  Modelled from the spec: the tree (de)composition utilities (\<open>disassemble_tree\<close>,
  \<open>assemble_tree\<close>) are not part of the sources. User data is \<open>None\<close>, a tensor, or a
  tuple or list of such data; \<open>disassemble_tree\<close> returns the structure and the tensors in
  order, \<open>assemble_tree\<close> puts tensors back into a structure.
\<close>

datatype tree = NoneT | Leaf "real tensor" | Tuple "tree list"

fun tensors_of :: "tree \<Rightarrow> real tensor list" where
  "tensors_of NoneT = []"
| "tensors_of (Leaf t) = [t]"
| "tensors_of (Tuple ts) = concat (map tensors_of ts)"

definition disassemble_tree :: "tree \<Rightarrow> tree \<times> real tensor list" where
  "disassemble_tree obj = (obj, tensors_of obj)"

fun assemble :: "tree \<Rightarrow> real tensor list \<Rightarrow> tree \<times> real tensor list"
  and assemble_list :: "tree list \<Rightarrow> real tensor list \<Rightarrow> tree list \<times> real tensor list" where
  "assemble NoneT vs = (NoneT, vs)"
| "assemble (Leaf t) [] = (Leaf t, [])"
| "assemble (Leaf t) (v # vs) = (Leaf v, vs)"
| "assemble (Tuple ts) vs = (case assemble_list ts vs of (ts', r) \<Rightarrow> (Tuple ts', r))"
| "assemble_list [] vs = ([], vs)"
| "assemble_list (t # ts) vs =
     (case assemble t vs of (t', r) \<Rightarrow>
        (case assemble_list ts r of (ts', r') \<Rightarrow> (t' # ts', r')))"

definition assemble_tree :: "tree \<Rightarrow> real tensor list \<Rightarrow> tree" where
  "assemble_tree nest vs = fst (assemble nest vs)"

text \<open>Entrywise operations of the tensor algebra used by the dispatcher.\<close>

fun map_tensor :: "('a \<Rightarrow> 'b) \<Rightarrow> 'a tensor \<Rightarrow> 'b tensor" where
  "map_tensor g (Symbolic nb) = Symbolic nb"
| "map_tensor g (Values nb rows) = Values nb (map (map g) rows)"
| "map_tensor g (Trajectory nb steps) = Trajectory nb (map (map (map g)) steps)"

fun zeros_like :: "tree \<Rightarrow> tree" where
  "zeros_like NoneT = NoneT"
| "zeros_like (Leaf t) = Leaf (map_tensor (\<lambda>v. 0) t)"
| "zeros_like (Tuple ts) = Tuple (map zeros_like ts)"

text \<open>
  \<open>a * b\<close> and \<open>a - b\<close> on tensors of one shape; a tensor with a single entry is
  broadcast. Anything else is outside the layout of this model and stays symbolic.
\<close>

fun zip_tensor :: "(real \<Rightarrow> real \<Rightarrow> real) \<Rightarrow> real tensor \<Rightarrow> real tensor \<Rightarrow> real tensor" where
  "zip_tensor g (Values nb [[a]]) t = map_tensor (g a) t"
| "zip_tensor g (Values nb rows) (Values nb' [[b]]) = Values nb (map (map (\<lambda>a. g a b)) rows)"
| "zip_tensor g (Values nb rows) (Values nb' rows') =
     Values nb (map (\<lambda>(r, r'). map (\<lambda>(a, b). g a b) (zip r r')) (zip rows rows'))"
| "zip_tensor g s t = Symbolic (non_batch s)"

definition tensor_mul :: "real tensor \<Rightarrow> real tensor \<Rightarrow> real tensor" where
  "tensor_mul = zip_tensor (\<lambda>a b. a * b)"

fun tree_sub :: "tree \<Rightarrow> tree \<Rightarrow> tree"
  and tree_sub_list :: "tree list \<Rightarrow> tree list \<Rightarrow> tree list" where
  "tree_sub (Leaf a) (Leaf b) = Leaf (zip_tensor (\<lambda>u v. u - v) a b)"
| "tree_sub (Tuple as) (Tuple bs) = Tuple (tree_sub_list as bs)"
| "tree_sub a b = a"
| "tree_sub_list (a # as) (b # bs) = tree_sub a b # tree_sub_list as bs"
| "tree_sub_list as bs = []"

text \<open>How a tensor prints inside a message is not fixed by the sources.\<close>

definition tensor_str :: "'a tensor \<Rightarrow> string" where
  "tensor_str t = ''<tensor>''"

definition py_value_str :: "'a py_value \<Rightarrow> string" where
  "py_value_str v = (case v of PyNumber n \<Rightarrow> ''<number>'' | PyTensor t \<Rightarrow> tensor_str t)"

section \<open>Solve, SolveInfo, SolveTape\<close>

text \<open>
  The classes a \<open>suppress\<close> tuple may hold: the constructor of \<open>Solve\<close> asserts
  \<open>issubclass(err, ConvergenceException)\<close> for each of them.
\<close>

datatype exc_class = ConvergenceException | NotConverged | Diverged

text \<open>
  \<open>class Solve\<close>. The fields hold tensors, as the constructor coerces them; the
  attribute \<open>relative_tolerance\<close> can also hold a Python number, since \<open>solve_nonlinear\<close>
  stores one there. \<open>preprocess_y\<close> is a reference to a callable (\<open>__eq__\<close> compares it
  with \<open>is\<close>); the callables live in a store that maps references to functions. \<open>id\<close>
  is the token \<open>str(uuid.uuid4())\<close>.
\<close>

type_synonym fref = nat

datatype Solve = Solve (method': string)
  (relative_tolerance: "real py_value")
  (absolute_tolerance: "real tensor")
  (max_iterations: "int tensor")
  (x0: tree)
  (suppress: "exc_class list")
  (preprocess_y: "fref option")
  (preprocess_y_args: "tree list")
  (gradient_solve_field: "Solve option")
  (id': nat)

record SolveInfo =
  solve :: Solve
  x' :: tree
  residual :: tree
  iterations :: "int tensor option"
  function_evaluations :: "int tensor option"
  converged :: "bool tensor"
  diverged :: "bool tensor"
  method' :: string
  msg :: string
  solve_time :: real

datatype error =
    AssertionError string
  | KeyError string
  | IndexError
  | AttributeError string
  | ValueError string
  | TypeError string
  | IncompatibleShapes string
  | ConvergenceError exc_class SolveInfo
  | UserError string

datatype warning = RuntimeWarning string | ConvergenceWarning string

record SolveTape =
  record_trajectories :: bool
  solves :: "SolveInfo list"
  solve_ids :: "nat list"

text \<open>
  The state the module works on: the list \<open>_SOLVE_TAPES\<close> of active tapes, the warnings
  issued so far through \<open>warnings.warn\<close>, the source of identity tokens, and the cast
  to the float precision in force (32 bits unless the global precision was changed).
  Modelled from the spec: \<open>uuid\<close> and the precision setting are not part of the sources;
  a token is globally unique, so the source hands out a token it has never issued before.
\<close>

record state =
  SOLVE_TAPES :: "SolveTape list"
  warnings :: "warning list"
  uuid_next :: nat
  float_cast :: "real \<Rightarrow> real"

definition uuid4 :: "state \<Rightarrow> nat \<times> state" where
  "uuid4 st = (uuid_next st, st\<lparr>uuid_next := Suc (uuid_next st)\<rparr>)"

definition warn :: "warning \<Rightarrow> state \<Rightarrow> state" where
  "warn w st = st\<lparr>warnings := warnings st @ [w]\<rparr>"

subsection \<open>Solve\<close>

definition Solve_init ::
  "string \<Rightarrow> real py_value \<Rightarrow> real py_value \<Rightarrow> int py_value \<Rightarrow> tree \<Rightarrow> exc_class list \<Rightarrow>
   fref option \<Rightarrow> tree list \<Rightarrow> Solve option \<Rightarrow> state \<Rightarrow> Solve \<times> state" where
  "Solve_init method0 relative_tolerance0 absolute_tolerance0 max_iterations0 x00 suppress0
      preprocess_y0 preprocess_y_args0 gradient_solve0 st =
     (case uuid4 st of (token, st') \<Rightarrow>
        (Solve method0
           (PyTensor (wrap_to_float (float_cast st) relative_tolerance0))
           (wrap_to_float (float_cast st) absolute_tolerance0)
           (wrap_to_int32 max_iterations0) x00 suppress0
           preprocess_y0 preprocess_y_args0 gradient_solve0 token, st'))"

text \<open>
  The property \<open>Solve.gradient_solve\<close>. It returns the gradient solve and the object it was
  read from, whose field \<open>_gradient_solve\<close> the first read fills.
\<close>

definition set_gradient_solve :: "Solve \<Rightarrow> Solve option \<Rightarrow> Solve" where
  "set_gradient_solve self g =
     Solve (Solve.method' self) (relative_tolerance self) (absolute_tolerance self)
       (max_iterations self) (x0 self) (suppress self) (preprocess_y self)
       (preprocess_y_args self) g (id' self)"

definition gradient_solve :: "Solve \<Rightarrow> state \<Rightarrow> (Solve \<times> Solve) \<times> state" where
  "gradient_solve self st =
     (case gradient_solve_field self of
        None \<Rightarrow>
          (case Solve_init (Solve.method' self) (relative_tolerance self)
                  (PyTensor (absolute_tolerance self)) (PyTensor (max_iterations self))
                  NoneT (suppress self) (preprocess_y self)
                  (preprocess_y_args self) None st of
             (g, st') \<Rightarrow> ((g, set_gradient_solve self (Some g)), st'))
      | Some g \<Rightarrow> ((g, self), st))"

definition repr_Solve :: "Solve \<Rightarrow> string" where
  "repr_Solve self =
     Solve.method' self @ '' with tolerance '' @ py_value_str (relative_tolerance self) @ '' (rel), ''
       @ tensor_str (absolute_tolerance self) @ '' (abs), max_iterations=''
       @ tensor_str (max_iterations self)"

text \<open>An exception raised by a step ends the computation; otherwise the next step runs.\<close>

definition bind_err :: "error + 'a \<Rightarrow> ('a \<Rightarrow> error + 'b) \<Rightarrow> error + 'b" where
  "bind_err m k = (case m of Inl e \<Rightarrow> Inl e | Inr v \<Rightarrow> k v)"

text \<open>
  \<open>(a != b).any\<close> as a truth value. \<open>!=\<close> of two tensors is entrywise and broadcasts
  (a tensor without trajectory is one step); a tensor that is still traced cannot give
  the truth value. Of two Python numbers \<open>!=\<close> is a \<open>bool\<close>, which has no \<open>any\<close>.
\<close>

definition ne_any :: "'a tensor \<Rightarrow> 'a tensor \<Rightarrow> error + bool" where
  "ne_any a b =
     (case (steps_of a, steps_of b) of
        (Some sa, Some sb) \<Rightarrow>
          (case zip_broadcast ne_rows sa sb of
             None \<Rightarrow> Inl (IncompatibleShapes ''cannot broadcast'')
           | Some d \<Rightarrow> Inr (list_ex (\<lambda>e. e) (concat (concat d))))
      | _ \<Rightarrow> Inl (TypeError ''a traced tensor has no truth value''))"

fun py_ne_any :: "'a py_value \<Rightarrow> 'a py_value \<Rightarrow> error + bool" where
  "py_ne_any (PyNumber v) (PyNumber w) = Inl (AttributeError ''bool object has no attribute any'')"
| "py_ne_any a b = ne_any (wrap a) (wrap b)"

text \<open>
  \<open>Solve.__eq__\<close>; \<open>other\<close> is a \<open>Solve\<close> by its type. The conditions are joined by
  \<open>or\<close>, so a later one is evaluated only when the earlier ones are false. The last line
  returns what \<open>==\<close> of the two initial guesses returns: the type of the guess is a
  parameter of the class, and its \<open>==\<close> is an argument here. That result is a \<open>bool\<close>
  or, of two tensors, the tensor of the entrywise comparisons.
\<close>

datatype eq_result = PyBool bool | Elementwise "bool tensor"

definition Solve_eq ::
  "(tree \<Rightarrow> tree \<Rightarrow> error + eq_result) \<Rightarrow> Solve \<Rightarrow> Solve \<Rightarrow> error + eq_result" where
  "Solve_eq eq_x0 self other =
     (if Solve.method' self \<noteq> Solve.method' other then Inr (PyBool False)
      else
        bind_err (ne_any (absolute_tolerance self) (absolute_tolerance other)) (\<lambda>d1.
          if d1 then Inr (PyBool False)
          else
            bind_err (py_ne_any (relative_tolerance self) (relative_tolerance other)) (\<lambda>d2.
              if d2 then Inr (PyBool False)
              else
                bind_err (ne_any (max_iterations self) (max_iterations other)) (\<lambda>d3.
                  if d3 \<or> preprocess_y self \<noteq> preprocess_y other
                     \<or> suppress self \<noteq> suppress other
                  then Inr (PyBool False)
                  else eq_x0 (x0 self) (x0 other)))))"

subsection \<open>SolveInfo\<close>

definition iterations_str :: "int tensor option \<Rightarrow> string" where
  "iterations_str it = (case it of None \<Rightarrow> ''?'' | Some t \<Rightarrow> tensor_str t)"

fun join_str :: "string list \<Rightarrow> string" where
  "join_str [] = []"
| "join_str [s] = s"
| "join_str (s # t # ss) = s @ '', '' @ join_str (t # ss)"

text \<open>
  \<open>[math.max_(t.trajectory[-1]) for t in disassemble_tree(self.residual)[1]]\<close>, printed;
  \<open>None\<close> when one of the slices is out of range.
\<close>

definition max_residual_str :: "tree \<Rightarrow> string option" where
  "max_residual_str r =
     map_option (\<lambda>ts. ''['' @ join_str (map tensor_str ts) @ '']'')
       (those (map (\<lambda>t. trajectory_at t (- 1)) (snd (disassemble_tree r))))"

definition SolveInfo_init ::
  "Solve \<Rightarrow> tree \<Rightarrow> tree \<Rightarrow> int tensor option \<Rightarrow> int tensor option \<Rightarrow> bool tensor \<Rightarrow>
   bool tensor \<Rightarrow> string \<Rightarrow> string \<Rightarrow> real \<Rightarrow> error + SolveInfo" where
  "SolveInfo_init solve0 x residual0 iterations0 function_evaluations0 converged0 diverged0
      method0 msg0 solve_time0 =
     (let self = \<lparr>solve = solve0, x' = x, residual = residual0, iterations = iterations0,
                  function_evaluations = function_evaluations0, converged = converged0,
                  diverged = diverged0, method' = method0, msg = msg0,
                  solve_time = solve_time0\<rparr>
      in if msg0 = [] \<and> all_available [diverged0, converged0] then
           if any_t diverged0 then
             Inr (self\<lparr>msg := ''Solve diverged within '' @ iterations_str iterations0
                    @ '' iterations using '' @ method0 @ ''.''\<rparr>)
           else
             (case trajectory_at converged0 (- 1) of
                None \<Rightarrow> Inl IndexError
              | Some c \<Rightarrow>
                  if \<not> all_t c then
                    (case max_residual_str residual0 of
                       None \<Rightarrow> Inl IndexError
                     | Some r \<Rightarrow>
                         Inr (self\<lparr>msg := ''Solve did not converge to rel=''
                                @ py_value_str (relative_tolerance solve0) @ '', abs=''
                                @ tensor_str (absolute_tolerance solve0) @ '' within ''
                                @ tensor_str (max_iterations solve0) @ '' iterations using ''
                                @ method0 @ ''. Max residual: '' @ r\<rparr>))
                  else
                    Inr (self\<lparr>msg := ''Converged within '' @ iterations_str iterations0
                           @ '' iterations.''\<rparr>))
         else Inr self)"

text \<open>
  \<open>obj.trajectory[index]\<close> on the fields of a result: a tensor is sliced, \<open>None\<close> and a
  tuple have no attribute \<open>trajectory\<close>.
\<close>

fun tree_trajectory_at :: "tree \<Rightarrow> int \<Rightarrow> error + tree" where
  "tree_trajectory_at NoneT i =
     Inl (AttributeError ''NoneType object has no attribute trajectory'')"
| "tree_trajectory_at (Leaf t) i =
     (case trajectory_at t i of None \<Rightarrow> Inl IndexError | Some s \<Rightarrow> Inr (Leaf s))"
| "tree_trajectory_at (Tuple ts) i =
     Inl (AttributeError ''tuple object has no attribute trajectory'')"

fun opt_trajectory_at :: "'a tensor option \<Rightarrow> int \<Rightarrow> error + 'a tensor option" where
  "opt_trajectory_at None i =
     Inl (AttributeError ''NoneType object has no attribute trajectory'')"
| "opt_trajectory_at (Some t) i =
     (case trajectory_at t i of None \<Rightarrow> Inl IndexError | Some s \<Rightarrow> Inr (Some s))"

definition flag_trajectory_at :: "bool tensor \<Rightarrow> int \<Rightarrow> error + bool tensor" where
  "flag_trajectory_at t i =
     (case trajectory_at t i of None \<Rightarrow> Inl IndexError | Some s \<Rightarrow> Inr s)"

definition snapshot :: "SolveInfo \<Rightarrow> int \<Rightarrow> error + SolveInfo" where
  "snapshot self index =
     bind_err (tree_trajectory_at (x' self) index) (\<lambda>x.
     bind_err (tree_trajectory_at (residual self) index) (\<lambda>r.
     bind_err (opt_trajectory_at (iterations self) index) (\<lambda>it.
     bind_err (opt_trajectory_at (function_evaluations self) index) (\<lambda>fe.
     bind_err (flag_trajectory_at (converged self) index) (\<lambda>c.
     bind_err (flag_trajectory_at (diverged self) index) (\<lambda>d.
       SolveInfo_init (solve self) x r it fe c d (SolveInfo.method' self) (msg self)
         (solve_time self)))))))"

text \<open>
  \<open>SolveInfo.convergence_check\<close>. The two conditions are two \<open>if\<close> statements in a row:
  the second runs whenever the first did not raise.
\<close>

definition check_diverged :: "SolveInfo \<Rightarrow> bool \<Rightarrow> state \<Rightarrow> (error + unit) \<times> state" where
  "check_diverged self only_warn st =
     (if any_t (diverged self) then
        if Diverged \<notin> set (suppress (solve self)) then
          if only_warn then (Inr (), warn (ConvergenceWarning (msg self)) st)
          else (Inl (ConvergenceError Diverged self), st)
        else (Inr (), st)
      else (Inr (), st))"

definition check_converged :: "SolveInfo \<Rightarrow> bool \<Rightarrow> state \<Rightarrow> (error + unit) \<times> state" where
  "check_converged self only_warn st =
     (case trajectory_at (converged self) (- 1) of
        None \<Rightarrow> (Inl IndexError, st)
      | Some c \<Rightarrow>
          if \<not> all_t c then
            if NotConverged \<notin> set (suppress (solve self)) then
              if only_warn then (Inr (), warn (ConvergenceWarning (msg self)) st)
              else (Inl (ConvergenceError NotConverged self), st)
            else (Inr (), st)
          else (Inr (), st))"

definition convergence_check :: "SolveInfo \<Rightarrow> bool \<Rightarrow> state \<Rightarrow> (error + unit) \<times> state" where
  "convergence_check self only_warn st =
     (if \<not> all_available [diverged self, converged self] then (Inr (), st)
      else
        (case check_diverged self only_warn st of
           (Inl e, st1) \<Rightarrow> (Inl e, st1)
         | (Inr u, st1) \<Rightarrow> check_converged self only_warn st1))"

subsection \<open>SolveTape\<close>

definition SolveTape_init :: "bool \<Rightarrow> SolveTape" where
  "SolveTape_init record_trajectories0 =
     \<lparr>record_trajectories = record_trajectories0, solves = [], solve_ids = []\<rparr>"

definition append_result :: "SolveTape \<Rightarrow> SolveInfo \<Rightarrow> Solve \<Rightarrow> SolveTape" where
  "append_result self result solve0 =
     self\<lparr>solves := solves self @ [result], solve_ids := solve_ids self @ [id' solve0]\<rparr>"

text \<open>\<open>SolveTape._add\<close>; the warning is issued before anything can fail.\<close>

definition SolveTape_add ::
  "SolveTape \<Rightarrow> Solve \<Rightarrow> bool \<Rightarrow> SolveInfo \<Rightarrow> state \<Rightarrow> (error + SolveTape) \<times> state" where
  "SolveTape_add self solve0 trj result st =
     (let st1 = (if list_ex (\<lambda>s. id' (solve s) = id' solve0) (solves self)
                 then warn (RuntimeWarning
                   ''SolveTape contains two results for the same solve settings. SolveTape[solve] will return the first solve result.'') st
                 else st)
      in if record_trajectories self then
           if trj then (Inr (append_result self result solve0), st1)
           else (Inl (AssertionError ''Solve did not record a trajectory.''), st1)
         else if trj then
           (case snapshot result (- 1) of
              Inl e \<Rightarrow> (Inl e, st1)
            | Inr s \<Rightarrow> (Inr (append_result self s solve0), st1))
         else (Inr (append_result self result solve0), st1))"

text \<open>\<open>SolveTape.__getitem__\<close>: the item is an \<open>int\<close> or a \<open>Solve\<close>.\<close>

datatype item = Index int | Key Solve

fun SolveTape_getitem :: "SolveTape \<Rightarrow> item \<Rightarrow> error + SolveInfo" where
  "SolveTape_getitem self (Index i) =
     (case py_index (solves self) i of None \<Rightarrow> Inl IndexError | Some s \<Rightarrow> Inr s)"
| "SolveTape_getitem self (Key k) =
     (let found = filter (\<lambda>s. id' (solve s) = id' k) (solves self)
      in if length found = 0 then
           Inl (KeyError (''No solve recorded with key '' @ [CHR 0x27] @ repr_Solve k
                  @ [CHR 0x27] @ ''.''))
         else if length found \<noteq> 1 then Inl (AssertionError [])
         else Inr (found ! 0))"

text \<open>
  \<open>for tape in _SOLVE_TAPES: tape._add(solve, trj, result)\<close>. A tape that raises ends the
  loop; the tapes before it keep their new entry.
\<close>

fun add_all ::
  "SolveTape list \<Rightarrow> Solve \<Rightarrow> bool \<Rightarrow> SolveInfo \<Rightarrow> state \<Rightarrow>
   (error option \<times> SolveTape list) \<times> state" where
  "add_all [] solve0 trj result st = ((None, []), st)"
| "add_all (tape # tapes) solve0 trj result st =
     (case SolveTape_add tape solve0 trj result st of
        (Inl e, st1) \<Rightarrow> ((Some e, tape # tapes), st1)
      | (Inr tape', st1) \<Rightarrow>
          (case add_all tapes solve0 trj result st1 of
             ((r, tapes'), st2) \<Rightarrow> ((r, tape' # tapes'), st2)))"

definition record_result :: "Solve \<Rightarrow> bool \<Rightarrow> SolveInfo \<Rightarrow> state \<Rightarrow> error option \<times> state" where
  "record_result solve0 trj result st =
     (case add_all (SOLVE_TAPES st) solve0 trj result st of
        ((r, tapes'), st1) \<Rightarrow> (r, st1\<lparr>SOLVE_TAPES := tapes'\<rparr>))"

text \<open>\<open>_SOLVE_TAPES and any(t.record_trajectories for t in _SOLVE_TAPES)\<close>, as a truth value.\<close>

definition trj_requested :: "state \<Rightarrow> bool" where
  "trj_requested st = (SOLVE_TAPES st \<noteq> [] \<and> list_ex record_trajectories (SOLVE_TAPES st))"

section \<open>The dispatcher\<close>

text \<open>
  Modelled from the spec: \<open>copy_with\<close> is not part of the sources; it copies the object
  (the identity token and the cached gradient solve with it) and sets the named attributes.
\<close>

datatype update =
    Set_x0 tree
  | Set_absolute_tolerance "real tensor"
  | Set_relative_tolerance "real py_value"
  | Set_preprocess_y "fref option"

fun set_attr :: "update \<Rightarrow> Solve \<Rightarrow> Solve" where
  "set_attr (Set_x0 v) (Solve m r a i x s p args g k) = Solve m r a i v s p args g k"
| "set_attr (Set_absolute_tolerance v) (Solve m r a i x s p args g k) = Solve m r v i x s p args g k"
| "set_attr (Set_relative_tolerance v) (Solve m r a i x s p args g k) = Solve m v a i x s p args g k"
| "set_attr (Set_preprocess_y v) (Solve m r a i x s p args g k) = Solve m r a i x s v args g k"

definition copy_with :: "Solve \<Rightarrow> update list \<Rightarrow> Solve" where
  "copy_with obj updates = fold set_attr updates obj"

text \<open>
  A user function: its \<open>__name__\<close> and what a call with positional and keyword arguments
  returns or raises. A \<open>LinearFunction\<close> also has \<open>sparse_matrix_and_bias\<close>.
  The callables behind \<open>preprocess_y\<close> are looked up in a store.
\<close>

type_synonym kwargs = "string \<rightharpoonup> tree"

datatype func =
    Function (fname: string) (call: "tree list \<Rightarrow> kwargs \<Rightarrow> error + tree")
  | LinearFunction (fname: string) (call: "tree list \<Rightarrow> kwargs \<Rightarrow> error + tree")
      (sparse_matrix_and_bias: "tree list \<Rightarrow> kwargs \<Rightarrow> error + (real list list \<times> tree)")


type_synonym hooks = "fref \<Rightarrow> tree list \<Rightarrow> error + tree"

text \<open>
  The record \<open>SolveResult\<close> a backend returns, and the backend itself.
  Modelled from the spec: the backends are not part of the sources; a backend is its name,
  its capability probes and the primitives the dispatcher calls. The backend that
  \<open>choose_backend_t\<close> selects is an argument of the functions below, and so is the time
  the call of the primitive took.
\<close>

record SolveResult =
  x' :: "real tensor"
  residual :: "real tensor option"
  iterations :: "int tensor"
  function_evaluations :: "int tensor"
  converged :: "bool tensor"
  diverged :: "bool tensor"
  method' :: string
  message :: string

datatype backend_ret = Single SolveResult | Sequence "SolveResult list"

datatype native_lin_op =
    NativeMatrix "real list list"
  | NativeFunction "real tensor \<Rightarrow> nat option \<Rightarrow> error + real tensor"

record Backend =
  name :: string
  supports_sparse_coo_tensor :: bool
  supports_csr_matrix :: bool
  concat' :: "real tensor list \<Rightarrow> error + real tensor"
  minimize ::
    "string \<Rightarrow> (real tensor \<Rightarrow> error + real tensor \<times> real tensor list) \<Rightarrow> real tensor \<Rightarrow>
     real tensor \<Rightarrow> int tensor \<Rightarrow> bool \<Rightarrow> error + backend_ret"
  linear_solve ::
    "string \<Rightarrow> native_lin_op \<Rightarrow> real tensor \<Rightarrow> real tensor \<Rightarrow> real tensor \<Rightarrow> real tensor \<Rightarrow>
     int tensor \<Rightarrow> bool \<Rightarrow> error + backend_ret"
  linear :: "native_lin_op \<Rightarrow> real tensor \<Rightarrow> error + real tensor"

text \<open>Python's \<open>sub in s\<close> on strings.\<close>

fun str_in :: "string \<Rightarrow> string \<Rightarrow> bool" where
  "str_in sub [] = (sub = [])"
| "str_in sub (c # cs) = (take (length sub) (c # cs) = sub \<or> str_in sub cs)"

text \<open>
  The last three statements of \<open>minimize\<close> and of \<open>_linear_solve_forward\<close>: record the
  result into every active tape, run the convergence check, return \<open>x\<close>.
\<close>

definition record_and_check ::
  "Solve \<Rightarrow> bool \<Rightarrow> SolveInfo \<Rightarrow> tree \<Rightarrow> bool \<Rightarrow> state \<Rightarrow> (error + tree) \<times> state" where
  "record_and_check solve0 trj result x only_warn st =
     (case record_result solve0 trj result st of
        (Some e, st1) \<Rightarrow> (Inl e, st1)
      | (None, st1) \<Rightarrow>
          (case convergence_check result only_warn st1 of
             (Inl e, st2) \<Rightarrow> (Inl e, st2)
           | (Inr u, st2) \<Rightarrow> (Inr x, st2)))"

subsection \<open>minimize\<close>

text \<open>\<open>x_flat[..., i:i + vol]\<close>, relabelled with the non-batch dimensions of a component.\<close>

fun slice_last :: "nat list \<Rightarrow> nat \<Rightarrow> nat \<Rightarrow> 'a tensor \<Rightarrow> 'a tensor" where
  "slice_last nb i vol (Symbolic nb0) = Symbolic nb"
| "slice_last nb i vol (Values nb0 rows) = Values nb (map (\<lambda>r. take vol (drop i r)) rows)"
| "slice_last nb i vol (Trajectory nb0 steps) =
     Trajectory nb (map (map (\<lambda>r. take vol (drop i r))) steps)"

fun unflatten :: "real tensor list \<Rightarrow> nat \<Rightarrow> real tensor \<Rightarrow> real tensor list" where
  "unflatten [] i x_flat = []"
| "unflatten (x0_native # rest) i x_flat =
     (let vol = prod_list (non_batch x0_native)
      in slice_last (non_batch x0_native) i vol x_flat # unflatten rest (i + vol) x_flat)"

definition unflatten_assemble :: "tree \<Rightarrow> real tensor list \<Rightarrow> real tensor \<Rightarrow> tree" where
  "unflatten_assemble x0_nest x0_natives x_flat =
     assemble_tree x0_nest (unflatten x0_natives 0 x_flat)"

definition tensor_sum :: "real tensor \<Rightarrow> real tensor" where
  "tensor_sum t = (if available t then Values [] [[sum_list (entries t)]] else Symbolic [])"

text \<open>
  The local function \<open>native_function\<close> of \<open>minimize\<close>; a tuple or list is passed
  to \<open>f\<close> as its positional arguments. The loss fits the batch of the initial guess when
  it has one row or as many rows as the flat vector.
\<close>

definition fits_batch :: "real tensor \<Rightarrow> real tensor \<Rightarrow> bool" where
  "fits_batch y x_flat =
     (case (y, x_flat) of
        (Values nb rows, Values nb0 rows0) \<Rightarrow> length rows = 1 \<or> length rows = length rows0
      | _ \<Rightarrow> True)"

definition call_objective :: "func \<Rightarrow> tree \<Rightarrow> error + tree" where
  "call_objective f x = (case x of Tuple xs \<Rightarrow> call f xs Map.empty | _ \<Rightarrow> call f [x] Map.empty)"

definition native_function ::
  "func \<Rightarrow> tree \<Rightarrow> real tensor list \<Rightarrow> real tensor \<Rightarrow> error + real tensor \<times> real tensor list" where
  "native_function f x0_nest x0_natives x_flat =
     (let x = unflatten_assemble x0_nest x0_natives x_flat
      in bind_err (call_objective f x) (\<lambda>y.
           case snd (disassemble_tree y) of
             [] \<Rightarrow> Inl IndexError
           | y0 # _ \<Rightarrow>
               if non_batch y0 \<noteq> [] then
                 Inl (AssertionError (''Failed to minimize '' @ [CHR 0x27] @ fname f @ [CHR 0x27]
                   @ '' because it returned a non-scalar output '' @ tensor_str y0
                   @ ''. Reduce all non-batch dimensions, e.g. using math.l2_loss()''))
               else if \<not> fits_batch y0 x_flat then
                 Inl (AssertionError (''Failed to minimize '' @ [CHR 0x27] @ fname f @ [CHR 0x27]
                   @ '' because its output loss '' @ tensor_str y0
                   @ '' has more batch dimensions than the initial guess '' @ tensor_str x_flat
                   @ ''.''))
               else Inr (tensor_sum y0, [y0])))"

text \<open>
  Modelled from the spec: \<open>reshaped_tensor\<close> is not part of the sources. It gives a
  native array dimension names; an array whose rows do not have the requested non-batch
  dimensions is rejected, and so is \<open>None\<close>. \<open>reshaped_tensor(v, [batch_dims])\<close> asks for
  no non-batch dimension: one entry per batch element.
\<close>

fun reshaped_tensor :: "'a tensor \<Rightarrow> nat list \<Rightarrow> error + 'a tensor" where
  "reshaped_tensor (Symbolic nb) dims = Inr (Symbolic dims)"
| "reshaped_tensor (Values nb rows) dims =
     (if list_all (\<lambda>r. length r = prod_list dims) rows then Inr (Values dims rows)
      else Inl (IncompatibleShapes ''cannot reshape native tensor''))"
| "reshaped_tensor (Trajectory nb steps) dims =
     Inl (IncompatibleShapes ''cannot reshape native tensor'')"

definition reshaped_residual :: "real tensor option \<Rightarrow> nat list \<Rightarrow> error + real tensor" where
  "reshaped_residual r dims =
     (case r of None \<Rightarrow> Inl (TypeError ''residual is None'') | Some v \<Rightarrow> reshaped_tensor v dims)"

text \<open>The last element of a trajectory, \<open>ret[-1]\<close>, and a list of steps that all succeed.\<close>

definition py_last :: "'a list \<Rightarrow> error + 'a" where
  "py_last xs = (case py_index xs (- 1) of None \<Rightarrow> Inl IndexError | Some v \<Rightarrow> Inr v)"

fun those_err :: "(error + 'a) list \<Rightarrow> error + 'a list" where
  "those_err [] = Inr []"
| "those_err (m # ms) =
     bind_err m (\<lambda>v. bind_err (those_err ms) (\<lambda>vs. Inr (v # vs)))"

text \<open>
  The part of \<open>minimize\<close> after the call of the backend and before the recording: build
  the \<open>SolveInfo\<close> and the solution \<open>x\<close>, in the order of the source.
\<close>

definition minimize_result ::
  "Solve \<Rightarrow> tree \<Rightarrow> real tensor list \<Rightarrow> bool \<Rightarrow> real \<Rightarrow> backend_ret \<Rightarrow> error + SolveInfo \<times> tree" where
  "minimize_result solve0 x0_nest x0_natives trj t ret =
     (if \<not> trj then
        (case ret of
           Sequence rs \<Rightarrow> Inl (AssertionError [])
         | Single r \<Rightarrow>
             bind_err (reshaped_tensor (SolveResult.converged r) []) (\<lambda>conv.
             bind_err (reshaped_tensor (SolveResult.diverged r) []) (\<lambda>dv.
               (let x = unflatten_assemble x0_nest x0_natives (SolveResult.x' r)
                in bind_err (reshaped_tensor (SolveResult.iterations r) []) (\<lambda>its.
                   bind_err (reshaped_tensor (SolveResult.function_evaluations r) []) (\<lambda>fe.
                   bind_err (reshaped_residual (SolveResult.residual r) []) (\<lambda>res.
                   bind_err (SolveInfo_init solve0 x (Leaf res) (Some its) (Some fe) conv dv
                               (SolveResult.method' r) (message r) t)
                     (\<lambda>result. Inr (result, x)))))))))
      else
        (case ret of
           Single r \<Rightarrow> Inl (AssertionError [])
         | Sequence rs \<Rightarrow>
             bind_err (py_last rs) (\<lambda>r.
             bind_err (reshaped_tensor (SolveResult.converged r) []) (\<lambda>conv.
             bind_err (reshaped_tensor (SolveResult.diverged r) []) (\<lambda>dv.
               (let x = unflatten_assemble x0_nest x0_natives (SolveResult.x' r);
                    x_trj = unflatten_assemble x0_nest x0_natives
                              (stack_trajectory (map SolveResult.x' rs))
                in bind_err (those_err (map (\<lambda>q. reshaped_residual (SolveResult.residual q) []) rs))
                     (\<lambda>ress.
                   bind_err (reshaped_tensor (SolveResult.iterations r) []) (\<lambda>its.
                   bind_err (those_err (map (\<lambda>q. reshaped_tensor
                                                (SolveResult.function_evaluations q) []) rs))
                     (\<lambda>fes.
                   bind_err (SolveInfo_init solve0 x_trj (Leaf (stack_trajectory ress))
                               (Some its) (Some (stack_trajectory fes)) conv dv
                               (SolveResult.method' r) (message r) t)
                     (\<lambda>result. Inr (result, x)))))))))))"

definition minimize_solve ::
  "Backend \<Rightarrow> real \<Rightarrow> func \<Rightarrow> Solve \<Rightarrow> state \<Rightarrow> error + SolveInfo \<times> tree" where
  "minimize_solve backend t f solve0 st =
     (case disassemble_tree (x0 solve0) of
        (x0_nest, x0_tensors) \<Rightarrow>
          bind_err (concat' backend x0_tensors) (\<lambda>x0_flat.
          bind_err (Backend.minimize backend (Solve.method' solve0)
                      (native_function f x0_nest x0_tensors) x0_flat
                      (absolute_tolerance solve0) (max_iterations solve0) (trj_requested st))
            (\<lambda>ret. minimize_result solve0 x0_nest x0_tensors (trj_requested st) t ret)))"

text \<open>
  \<open>(solve.relative_tolerance == 0).all\<close>: of a tensor, whether every entry is zero; of a
  Python number \<open>==\<close> is a \<open>bool\<close>, which has no attribute \<open>all\<close>.
\<close>

fun relative_tolerance_is_zero :: "real py_value \<Rightarrow> error + bool" where
  "relative_tolerance_is_zero (PyTensor v) = Inr (all_t (map_tensor (\<lambda>e. e = 0) v))"
| "relative_tolerance_is_zero (PyNumber n) =
     Inl (AttributeError ''bool object has no attribute all'')"

definition minimize ::
  "Backend \<Rightarrow> real \<Rightarrow> func \<Rightarrow> Solve \<Rightarrow> state \<Rightarrow> (error + tree) \<times> state" where
  "minimize backend t f solve0 st =
     (case relative_tolerance_is_zero (relative_tolerance solve0) of
        Inl e \<Rightarrow> (Inl e, st)
      | Inr zero \<Rightarrow>
          if \<not> zero then
            (Inl (AssertionError (''relative_tolerance must be zero for minimize() but got ''
                    @ py_value_str (relative_tolerance solve0))), st)
          else if preprocess_y solve0 \<noteq> None then
            (Inl (AssertionError ''minimize() does not allow preprocess_y''), st)
          else
            (case minimize_solve backend t f solve0 st of
               Inl e \<Rightarrow> (Inl e, st)
             | Inr (result, x) \<Rightarrow>
                 record_and_check solve0 (trj_requested st) result x False st))"

subsection \<open>solve_nonlinear\<close>

text \<open>
  Modelled from the spec: \<open>l2_loss\<close> (module \<open>_nd\<close>) is not part of the sources; it is an
  argument. \<open>copy_with\<close> stores the literal \<open>0\<close> as the relative tolerance as it is: the
  attribute then holds the Python number, not a tensor, since only the constructor wraps.
\<close>

definition min_func :: "(tree \<Rightarrow> real tensor) \<Rightarrow> func \<Rightarrow> tree \<Rightarrow> func" where
  "min_func l2_loss f y =
     Function ''min_func'' (\<lambda>args kw.
       case args of
         [x] \<Rightarrow> bind_err (call f [x] Map.empty) (\<lambda>fx. Inr (Leaf (l2_loss (tree_sub fx y))))
       | _ \<Rightarrow> Inl (TypeError ''min_func() takes 1 positional argument''))"

text \<open>\<open>solve.relative_tolerance * l2_loss(y)\<close>.\<close>

fun py_mul :: "real py_value \<Rightarrow> real tensor \<Rightarrow> real tensor" where
  "py_mul (PyTensor v) u = tensor_mul v u"
| "py_mul (PyNumber n) u = map_tensor (\<lambda>e. n * e) u"

definition solve_nonlinear ::
  "hooks \<Rightarrow> (tree \<Rightarrow> real tensor) \<Rightarrow> Backend \<Rightarrow> real \<Rightarrow> func \<Rightarrow> tree \<Rightarrow> Solve \<Rightarrow> state \<Rightarrow>
   (error + tree) \<times> state" where
  "solve_nonlinear store l2_loss backend t f y solve0 st =
     (case (case preprocess_y solve0 of None \<Rightarrow> Inr y | Some h \<Rightarrow> store h [y]) of
        Inl e \<Rightarrow> (Inl e, st)
      | Inr y1 \<Rightarrow>
          (let rel_tol_to_abs = py_mul (relative_tolerance solve0) (l2_loss y1);
               min_solve = copy_with solve0 [Set_absolute_tolerance rel_tol_to_abs,
                             Set_relative_tolerance (PyNumber 0), Set_preprocess_y None]
           in minimize backend t (min_func l2_loss f y1) min_solve st))"

subsection \<open>solve_linear\<close>

text \<open>\<open>nest, (tensor,) = disassemble_tree(obj)\<close>: unpacking needs exactly one tensor.\<close>

definition unpack_single :: "tree \<Rightarrow> error + tree \<times> real tensor" where
  "unpack_single obj =
     (case disassemble_tree obj of
        (nest, [v]) \<Rightarrow> Inr (nest, v)
      | (nest, _) \<Rightarrow> Inl (ValueError ''wrong number of values to unpack (expected 1)''))"

text \<open>
  The part of \<open>_linear_solve_forward\<close> after the call of the backend and before the
  recording: build the \<open>SolveInfo\<close> and the solution \<open>x\<close>, in the order of the source.
  In the layout of this model the pattern dimensions are the non-batch dimensions of
  \<open>x0\<close> (\<open>dims_in\<close>) and of \<open>y\<close> (\<open>dims_out\<close>).
\<close>

definition linear_solve_result ::
  "Backend \<Rightarrow> Solve \<Rightarrow> native_lin_op \<Rightarrow> tree \<Rightarrow> real tensor \<Rightarrow> tree \<Rightarrow> nat list \<Rightarrow> nat list \<Rightarrow> bool \<Rightarrow>
   bool \<Rightarrow> real \<Rightarrow> backend_ret \<Rightarrow> error + SolveInfo \<times> tree" where
  "linear_solve_result backend solve0 native_lin_op y_nest y_native x0_nest dims_in dims_out trj
      tapes_active t ret =
     (if \<not> trj then
        (case ret of
           Sequence rs \<Rightarrow> Inl (AssertionError [])
         | Single r \<Rightarrow>
             bind_err (reshaped_tensor (SolveResult.converged r) []) (\<lambda>conv.
             bind_err (reshaped_tensor (SolveResult.diverged r) []) (\<lambda>dv.
             bind_err (reshaped_tensor (SolveResult.x' r) dims_in) (\<lambda>xt.
             bind_err (reshaped_tensor (SolveResult.iterations r) []) (\<lambda>its.
             bind_err (reshaped_tensor (SolveResult.function_evaluations r) []) (\<lambda>fe.
             bind_err
               (case SolveResult.residual r of
                  Some res \<Rightarrow>
                    bind_err (reshaped_tensor res dims_out) (\<lambda>rt. Inr (assemble_tree y_nest [rt]))
                | None \<Rightarrow>
                    if tapes_active then
                      bind_err (linear backend native_lin_op (SolveResult.x' r)) (\<lambda>lin.
                      bind_err (reshaped_tensor (zip_tensor (\<lambda>u v. u - v) lin y_native) dims_out)
                        (\<lambda>rt. Inr (assemble_tree y_nest [rt])))
                    else Inr NoneT)
               (\<lambda>res.
             bind_err (SolveInfo_init solve0 (assemble_tree x0_nest [xt]) res (Some its) (Some fe)
                         conv dv (SolveResult.method' r) (message r) t)
               (\<lambda>result. Inr (result, assemble_tree x0_nest [xt])))))))))
      else
        (case ret of
           Single r \<Rightarrow>
             Inl (AssertionError ''Trajectory recording failed: got SolveResult'')
         | Sequence rs \<Rightarrow>
             bind_err (py_last rs) (\<lambda>r.
             bind_err (reshaped_tensor (SolveResult.converged r) []) (\<lambda>conv.
             bind_err (reshaped_tensor (SolveResult.diverged r) []) (\<lambda>dv.
             bind_err (reshaped_tensor (SolveResult.x' r) dims_in) (\<lambda>xt.
             bind_err (those_err (map (\<lambda>q. reshaped_tensor (SolveResult.x' q) dims_in) rs))
               (\<lambda>xs.
             bind_err (those_err (map (\<lambda>q. reshaped_residual (SolveResult.residual q) dims_out) rs))
               (\<lambda>ress.
             bind_err (reshaped_tensor (SolveResult.iterations r) []) (\<lambda>its.
             bind_err (those_err (map (\<lambda>q. reshaped_tensor
                                          (SolveResult.function_evaluations q) []) rs))
               (\<lambda>fes.
             bind_err (SolveInfo_init solve0 (assemble_tree x0_nest [stack_trajectory xs])
                         (assemble_tree y_nest [stack_trajectory ress])
                         (Some its) (Some (stack_trajectory fes)) conv dv
                         (SolveResult.method' r) (message r) t)
               (\<lambda>result. Inr (result, assemble_tree x0_nest [xt]))))))))))))"

text \<open>
  \<open>math.to_float(solve.relative_tolerance)\<close>, without \<open>wrap\<close>: a tensor is returned as it
  is; a Python number is not a tensor.
\<close>

fun to_float_tensor :: "real py_value \<Rightarrow> error + real tensor" where
  "to_float_tensor (PyTensor v) = Inr v"
| "to_float_tensor (PyNumber n) = Inl (AttributeError ''number is not a Tensor'')"

definition linear_solve_prepare ::
  "hooks \<Rightarrow> Backend \<Rightarrow> real \<Rightarrow> tree \<Rightarrow> Solve \<Rightarrow> native_lin_op \<Rightarrow> state \<Rightarrow> error + SolveInfo \<times> tree" where
  "linear_solve_prepare store backend t y solve0 native_lin_op st =
     bind_err (case preprocess_y solve0 of
                 None \<Rightarrow> Inr y
               | Some h \<Rightarrow> store h (y # preprocess_y_args solve0)) (\<lambda>y1.
     bind_err (unpack_single y1) (\<lambda>(y_nest, y_tensor).
     bind_err (unpack_single (x0 solve0)) (\<lambda>(x0_nest, x0_tensor).
     bind_err (to_float_tensor (relative_tolerance solve0)) (\<lambda>rtol.
       if trj_requested st \<and> \<not> all_available [y_tensor, x0_tensor] then
         Inl (AssertionError ''Cannot record linear solve in jit mode'')
       else
         bind_err (linear_solve backend (Solve.method' solve0) native_lin_op y_tensor x0_tensor
                     rtol (absolute_tolerance solve0)
                     (max_iterations solve0) (trj_requested st)) (\<lambda>ret.
           linear_solve_result backend solve0 native_lin_op y_nest y_tensor x0_nest
             (non_batch x0_tensor) (non_batch y_tensor)
             (trj_requested st) (SOLVE_TAPES st \<noteq> []) t ret)))))"

text \<open>\<open>_linear_solve_forward\<close>.\<close>

definition linear_solve_forward ::
  "hooks \<Rightarrow> Backend \<Rightarrow> real \<Rightarrow> tree \<Rightarrow> Solve \<Rightarrow> native_lin_op \<Rightarrow> bool \<Rightarrow> state \<Rightarrow>
   (error + tree) \<times> state" where
  "linear_solve_forward store backend t y solve0 native_lin_op is_backprop st =
     (case linear_solve_prepare store backend t y solve0 native_lin_op st of
        Inl e \<Rightarrow> (Inl e, st)
      | Inr (result, x) \<Rightarrow>
          record_and_check solve0 (trj_requested st) result x
            (is_backprop \<and> str_in ''TensorFlow'' (name backend)) st)"

text \<open>The two local forward functions of \<open>solve_linear\<close>.\<close>

definition matrix_solve_forward ::
  "hooks \<Rightarrow> Backend \<Rightarrow> real \<Rightarrow> tree \<Rightarrow> Solve \<Rightarrow> real list list \<Rightarrow> bool \<Rightarrow> state \<Rightarrow>
   (error + tree) \<times> state" where
  "matrix_solve_forward store backend t y solve0 matrix is_backprop st =
     linear_solve_forward store backend t y solve0 (NativeMatrix matrix) is_backprop st"





subsection \<open>attach_gradient_solve\<close>

text \<open>
  The values a forward solve is called with, and the dictionary \<open>kwargs\<close> of the
  arguments of the forward call that the gradient function receives.
\<close>

datatype pyval =
    PTree tree
  | PSolve Solve
  | PMatrix "real list list"
  | PBool bool
  | PArgs "tree list"
  | PKwargs kwargs

type_synonym wrapped = "pyval list \<Rightarrow> (string \<rightharpoonup> pyval) \<Rightarrow> state \<Rightarrow> (error + tree) \<times> state"

text \<open>
  The local function \<open>implicit_gradient_solve\<close> of \<open>attach_gradient_solve\<close>. Its first
  argument is \<open>solve_with_grad\<close>, the function that \<open>custom_gradient\<close> returned for the
  forward solve; it is called with positional and keyword arguments. Reading
  \<open>solve.gradient_solve\<close> may fill the cache of the object that \<open>kwargs['solve']\<close> refers
  to, so the dictionary passed on holds the object after the reads.
\<close>

definition implicit_gradient_solve ::
  "wrapped \<Rightarrow> (string \<rightharpoonup> pyval) \<Rightarrow> tree \<Rightarrow> tree \<Rightarrow> state \<Rightarrow> (error + (string \<rightharpoonup> tree)) \<times> state" where
  "implicit_gradient_solve solve_with_grad kwargs0 x dx st =
     (case kwargs0 ''solve'' of
        None \<Rightarrow> (Inl (KeyError ''solve''), st)
      | Some (PSolve solve0) \<Rightarrow>
          (let matrix = (case kwargs0 ''matrix'' of Some m \<Rightarrow> [m] | None \<Rightarrow> [])
           in case gradient_solve solve0 st of
                ((grad_solve, solve1), st1) \<Rightarrow>
                  (let x0_new = (if x0 grad_solve \<noteq> NoneT then x0 grad_solve
                                 else zeros_like (x0 solve1))
                   in case gradient_solve solve1 st1 of
                        ((grad_solve2, solve2), st2) \<Rightarrow>
                          (let grad_solve_copy = copy_with grad_solve2 [Set_x0 x0_new];
                               kwargs1 = (kwargs0(''solve'' \<mapsto> PSolve solve2))(''is_backprop'' := None)
                           in case solve_with_grad ([PTree dx, PSolve grad_solve_copy] @ matrix)
                                     (kwargs1(''is_backprop'' \<mapsto> PBool True)) st2 of
                                (Inl e, st3) \<Rightarrow> (Inl e, st3)
                              | (Inr dy, st3) \<Rightarrow> (Inr [''y'' \<mapsto> dy], st3))))
      | Some other \<Rightarrow> (Inl (AttributeError ''object has no attribute gradient_solve''), st))"

section \<open>Sample inputs\<close>

text \<open>
  The cast to 32-bit floats, for magnitudes below \<open>2 ^ 128\<close>: the value is rounded to
  the nearest multiple of the spacing of its binade (\<open>2 ^ (e - 23)\<close> for a magnitude in
  \<open>[2 ^ e, 2 ^ (e + 1))\<close>, with \<open>e\<close> at least \<open>- 126\<close>), a tie to the even multiple.
\<close>

definition pow2 :: "int \<Rightarrow> real" where
  "pow2 k = (if 0 \<le> k then 2 ^ nat k else 1 / 2 ^ nat (- k))"

fun exponent_up :: "nat \<Rightarrow> int \<Rightarrow> real \<Rightarrow> int" where
  "exponent_up 0 e v = e"
| "exponent_up (Suc n) e v = (if v < pow2 (e + 1) then e else exponent_up n (e + 1) v)"

fun exponent_down :: "nat \<Rightarrow> int \<Rightarrow> real \<Rightarrow> int" where
  "exponent_down 0 e v = e"
| "exponent_down (Suc n) e v = (if pow2 e \<le> v then e else exponent_down n (e - 1) v)"

definition binade :: "real \<Rightarrow> int" where
  "binade v = (if 1 \<le> \<bar>v\<bar> then exponent_up 127 0 \<bar>v\<bar> else exponent_down 125 (- 1) \<bar>v\<bar>)"

definition round_half_even :: "real \<Rightarrow> int" where
  "round_half_even v =
     (let f = \<lfloor>v\<rfloor>; d = v - of_int f
      in if d < 1 / 2 then f else if 1 / 2 < d then f + 1 else if even f then f else f + 1)"

definition float32 :: "real \<Rightarrow> real" where
  "float32 v = (let ulp = pow2 (binade v - 23) in of_int (round_half_even (v / ulp)) * ulp)"

text \<open>
  The \<open>==\<close> of initial guesses that are \<open>None\<close>, tensors, or tuples of such, for
  operands that are distinct objects: of two tensors it is the tensor of the entrywise
  comparisons; of two tuples it compares the items in turn and needs the truth value of
  each comparison, which a tensor has only when it has a single entry.
\<close>

definition truth_value :: "eq_result \<Rightarrow> error + bool" where
  "truth_value r =
     (case r of
        PyBool b \<Rightarrow> Inr b
      | Elementwise v \<Rightarrow>
          (case entries v of
             [e] \<Rightarrow> Inr e
           | _ \<Rightarrow> Inl (AssertionError ''Cannot convert tensor with non-empty shape to bool'')))"

fun py_eq :: "tree \<Rightarrow> tree \<Rightarrow> error + eq_result"
  and py_eq_items :: "tree list \<Rightarrow> tree list \<Rightarrow> error + eq_result" where
  "py_eq NoneT NoneT = Inr (PyBool True)"
| "py_eq (Leaf (Values nb rows)) (Leaf (Values nb' rows')) =
     (case zip_broadcast (zip_broadcast (\<lambda>u v. Some (u = v))) rows rows' of
        None \<Rightarrow> Inl (IncompatibleShapes ''cannot broadcast'')
      | Some d \<Rightarrow> Inr (Elementwise (Values nb d)))"
| "py_eq (Tuple as) (Tuple bs) = py_eq_items as bs"
| "py_eq a b = Inr (PyBool False)"
| "py_eq_items [] [] = Inr (PyBool True)"
| "py_eq_items (a # as) (b # bs) =
     bind_err (py_eq a b) (\<lambda>r. bind_err (truth_value r) (\<lambda>same.
       if same then py_eq_items as bs else Inr (PyBool False)))"
| "py_eq_items as bs = Inr (PyBool False)"

text \<open>
  Solves of a two-entry unknown: one that suppresses \<open>Diverged\<close>, one that suppresses
  nothing, one that suppresses \<open>NotConverged\<close> and allows a single iteration, and one with
  a relative tolerance and a preprocess hook. A state without tapes and a state with one
  tape that records trajectories, both with 32-bit floats in force.
\<close>

definition demo_solve :: Solve where
  "demo_solve = Solve ''CG'' (PyTensor (Values [] [[0]])) (Values [] [[1 / 1024]]) (Values [] [[100]])
     (Leaf (Values [2] [[0, 0]])) [Diverged] None [] None 0"

definition strict_solve :: Solve where
  "strict_solve = Solve ''CG'' (PyTensor (Values [] [[0]])) (Values [] [[1 / 1024]]) (Values [] [[100]])
     (Leaf (Values [2] [[0, 0]])) [] None [] None 0"

definition lenient_solve :: Solve where
  "lenient_solve = Solve ''GD'' (PyTensor (Values [] [[0]])) (Values [] [[1 / 1024]]) (Values [] [[1]])
     (Leaf (Values [2] [[0, 0]])) [NotConverged] None [] None 0"

definition hooked_solve :: Solve where
  "hooked_solve = Solve ''L-BFGS-B'' (PyTensor (Values [] [[1 / 2]])) (Values [] [[5]]) (Values [] [[50]])
     (Leaf (Values [2] [[0, 0]])) [] (Some 3) [] None 0"

definition demo_state :: state where
  "demo_state = \<lparr>SOLVE_TAPES = [], warnings = [], uuid_next = 1, float_cast = float32\<rparr>"

definition tape_state :: state where
  "tape_state = \<lparr>SOLVE_TAPES = [SolveTape_init True], warnings = [], uuid_next = 1,
     float_cast = float32\<rparr>"

text \<open>A target, a matrix, and results as a tape holds them.\<close>

definition demo_y :: tree where
  "demo_y = Leaf (Values [2] [[4, 6]])"

definition demo_op :: native_lin_op where
  "demo_op = NativeMatrix [[2, 0], [0, 2]]"

definition unconverged_info :: "Solve \<Rightarrow> SolveInfo" where
  "unconverged_info s = \<lparr>solve = s, SolveInfo.x' = Leaf (Values [2] [[1, 1]]),
     SolveInfo.residual = Leaf (Values [2] [[0, 0]]), SolveInfo.iterations = Some (Values [] [[1]]),
     SolveInfo.function_evaluations = Some (Values [] [[1]]),
     SolveInfo.converged = Values [] [[False]], SolveInfo.diverged = Values [] [[False]],
     SolveInfo.method' = ''CG'',
     msg = ''Solve did not converge to rel=<tensor>, abs=<tensor> within <tensor> iterations using CG. Max residual: [<tensor>]'',
     solve_time = 0\<rparr>"

definition first_info :: SolveInfo where
  "first_info = \<lparr>solve = demo_solve, SolveInfo.x' = Leaf (Values [2] [[1, 1]]),
     SolveInfo.residual = NoneT, SolveInfo.iterations = Some (Values [] [[3]]),
     SolveInfo.function_evaluations = Some (Values [] [[3]]),
     SolveInfo.converged = Values [] [[True]], SolveInfo.diverged = Values [] [[False]],
     SolveInfo.method' = ''CG'', msg = ''Converged within <tensor> iterations.'',
     solve_time = 0\<rparr>"

definition second_info :: SolveInfo where
  "second_info = first_info\<lparr>SolveInfo.x' := Leaf (Values [2] [[2, 3]])\<rparr>"

definition diverged_info :: SolveInfo where
  "diverged_info = first_info\<lparr>SolveInfo.converged := Values [] [[False]],
     SolveInfo.diverged := Values [] [[True]], msg := ''Solve diverged.''\<rparr>"

text \<open>
  One step as a backend reports it for a linear solve (the residual has the shape of
  \<open>y\<close>) and for a minimization (the residual is the loss, one entry per batch element),
  a backend that returns what it is given whatever it is asked, user functions with a
  scalar and with a non-scalar output, a store without callables and one whose callables
  return their first argument, and a loss.
\<close>

definition step :: "real list \<Rightarrow> bool \<Rightarrow> bool \<Rightarrow> SolveResult" where
  "step v c d = \<lparr>SolveResult.x' = Values [2] [v], SolveResult.residual = Some (Values [2] [[0, 0]]),
     SolveResult.iterations = Values [] [[1]], SolveResult.function_evaluations = Values [] [[1]],
     SolveResult.converged = Values [] [[c]], SolveResult.diverged = Values [] [[d]],
     SolveResult.method' = ''CG'', message = []\<rparr>"

definition min_step :: "real list \<Rightarrow> bool \<Rightarrow> bool \<Rightarrow> SolveResult" where
  "min_step v c d = (step v c d)\<lparr>SolveResult.residual := Some (Values [] [[0]])\<rparr>"

definition fixed_backend :: "string \<Rightarrow> backend_ret \<Rightarrow> Backend" where
  "fixed_backend nm ret =
     \<lparr>name = nm, supports_sparse_coo_tensor = False, supports_csr_matrix = False,
      concat' = (\<lambda>ts. case ts of [v] \<Rightarrow> Inr v | _ \<Rightarrow> Inl (ValueError ''concat'')),
      Backend.minimize = (\<lambda>m f x atol maxi trj. Inr ret),
      linear_solve = (\<lambda>m op y x rtol atol maxi trj. Inr ret),
      linear = (\<lambda>op v. Inr v)\<rparr>"

definition scalar_f :: func where
  "scalar_f = Function ''loss'' (\<lambda>args kw. Inr (Leaf (Values [] [[1]])))"

definition no_hooks :: hooks where
  "no_hooks = (\<lambda>h args. Inl (UserError ''no such callable''))"


definition first_arg_hooks :: hooks where
  "first_arg_hooks = (\<lambda>h args. case args of [] \<Rightarrow> Inl (TypeError ''missing argument'') | v # _ \<Rightarrow> Inr v)"

definition half_square_sum :: "tree \<Rightarrow> real tensor" where
  "half_square_sum v = Values [] [[sum_list (map (\<lambda>e. e * e / 2) (List.concat (map entries (tensors_of v))))]]"

text \<open>
  Observations: the class and the message of a raised convergence error, the results the
  active tapes hold after a call, and which fields of a result have a trajectory dimension (in the
  order \<open>x\<close>, \<open>residual\<close>, \<open>iterations\<close>, \<open>function_evaluations\<close>, \<open>converged\<close>,
  \<open>diverged\<close>).
\<close>

definition raised :: "error + 'a \<Rightarrow> exc_class option" where
  "raised r = (case r of Inl (ConvergenceError k info) \<Rightarrow> Some k | _ \<Rightarrow> None)"

definition raised_msg :: "error + 'a \<Rightarrow> string option" where
  "raised_msg r = (case r of Inl (ConvergenceError k info) \<Rightarrow> Some (msg info) | _ \<Rightarrow> None)"

definition trajectory_axes :: "SolveInfo \<Rightarrow> bool list" where
  "trajectory_axes info =
     [list_all has_trajectory (tensors_of (SolveInfo.x' info)),
      list_all has_trajectory (tensors_of (SolveInfo.residual info)),
      (case SolveInfo.iterations info of None \<Rightarrow> False | Some v \<Rightarrow> has_trajectory v),
      (case SolveInfo.function_evaluations info of None \<Rightarrow> False | Some v \<Rightarrow> has_trajectory v),
      has_trajectory (SolveInfo.converged info),
      has_trajectory (SolveInfo.diverged info)]"

definition recorded :: "(error + tree) \<times> state \<Rightarrow> SolveInfo list" where
  "recorded out = concat (map solves (SOLVE_TAPES (snd out)))"

text \<open>A wrapper that binds the arguments of a call to the forward matrix solve.\<close>

definition matrix_solve_with_grad :: "hooks \<Rightarrow> Backend \<Rightarrow> wrapped" where
  "matrix_solve_with_grad store backend args kw st =
     (case args of
        [PTree y, PSolve s, PMatrix m] \<Rightarrow>
          matrix_solve_forward store backend 0 y s m (kw ''is_backprop'' = Some (PBool True)) st
      | _ \<Rightarrow> (Inl (TypeError ''unexpected arguments''), st))"

definition forward_kwargs :: "string \<rightharpoonup> pyval" where
  "forward_kwargs = [''y'' \<mapsto> PTree demo_y, ''solve'' \<mapsto> PSolve strict_solve,
     ''matrix'' \<mapsto> PMatrix [[2, 0], [0, 2]], ''is_backprop'' \<mapsto> PBool False]"

section \<open>Properties\<close>

subsection \<open>Helper lemmas\<close>

lemmas eval_defs = linear_solve_forward_def linear_solve_prepare_def linear_solve_result_def
  minimize_def minimize_solve_def minimize_result_def
  fixed_backend_def step_def scalar_f_def no_hooks_def demo_y_def demo_op_def
  demo_solve_def strict_solve_def lenient_solve_def demo_state_def tape_state_def
  unconverged_info_def all_t_def any_t_def disassemble_tree_def unpack_single_def
  bind_err_def trj_requested_def unflatten_assemble_def assemble_tree_def reshaped_residual_def
  SolveInfo_init_def all_available_def record_and_check_def record_result_def
  convergence_check_def check_diverged_def check_converged_def Let_def py_last_def py_index_def
  stack_trajectory_def SolveTape_add_def SolveTape_init_def append_result_def
  max_residual_str_def tensor_str_def py_value_str_def warn_def iterations_str_def min_step_def

lemma exponent_up_first:
  assumes "v < pow2 (e + 1)" "0 < n"
  shows "exponent_up n e v = e"
  using assms by (cases n) simp_all

lemma binade_unit:
  assumes "1 \<le> v" "v < 2"
  shows "binade v = 0"
  using assms by (simp add: binade_def exponent_up_first pow2_def)

lemma float32_sample_values:
  "float32 0 = 0" "float32 1 = 1" "float32 (3 / 2) = 3 / 2" "float32 (1 + 1 / 2 ^ 30) = 1"
proof -
  have "binade 1 = 0" "binade (3 / 2) = 0" "binade (1 + 1 / 2 ^ 30) = 0"
    by (rule binade_unit; simp)+
  then show "float32 0 = 0" "float32 1 = 1" "float32 (3 / 2) = 3 / 2"
    "float32 (1 + 1 / 2 ^ 30) = 1"
    by (simp_all add: float32_def pow2_def round_half_even_def Let_def)
qed

lemma those_map2_Some:
  "those (map (\<lambda>(a, b). Some (g a b)) zs) = Some (map (\<lambda>(a, b). g a b) zs)"
  by (induction zs) auto

lemma zip_broadcast_same_length:
  assumes "length as = length bs"
  shows "zip_broadcast g as bs = those (map (\<lambda>(a, b). g a b) (zip as bs))"
  using assms by (simp add: zip_broadcast_def)

lemma ne_entries_iff:
  assumes "length r = length r'"
  shows "list_ex (\<lambda>e. e) (map (\<lambda>(a, b). a \<noteq> b) (zip r r')) \<longleftrightarrow> r \<noteq> r'"
  using assms by (induction r r' rule: list_induct2) auto

lemma ne_rows_same_shape:
  assumes "map length rows = map length rows'"
  shows "\<exists>d. ne_rows rows rows' = Some d \<and> (list_ex (\<lambda>e. e) (concat d) \<longleftrightarrow> rows \<noteq> rows')"
  using assms
proof (induction rows arbitrary: rows')
  case Nil
  then show ?case by (simp add: ne_rows_def zip_broadcast_def)
next
  case (Cons r rows)
  then obtain r' rest where rows': "rows' = r' # rest" and len: "length r = length r'"
    and rest: "map length rows = map length rest"
    by (cases rows') auto
  from Cons.IH [OF rest] obtain d where d: "ne_rows rows rest = Some d"
    "list_ex (\<lambda>e. e) (concat d) \<longleftrightarrow> rows \<noteq> rest"
    by blast
  have lr: "length rows = length rest"
    using rest by (metis length_map)
  have lr': "length (r # rows) = length (r' # rest)"
    using lr by simp
  have td: "those (map (\<lambda>(a, b). zip_broadcast (\<lambda>a b. Some (a \<noteq> b)) a b) (zip rows rest)) = Some d"
    using d(1) unfolding ne_rows_def zip_broadcast_same_length [OF lr] .
  have hd: "zip_broadcast (\<lambda>a b. Some (a \<noteq> b)) r r' = Some (map (\<lambda>(a, b). a \<noteq> b) (zip r r'))"
    unfolding zip_broadcast_same_length [OF len] by (rule those_map2_Some)
  have "ne_rows (r # rows) (r' # rest) = Some (map (\<lambda>(a, b). a \<noteq> b) (zip r r') # d)"
    unfolding ne_rows_def zip_broadcast_same_length [OF lr']
    using td hd by simp
  then show ?case
    using d(2) ne_entries_iff [OF len] rows' by auto
qed

lemma ne_any_same_shape:
  assumes "same_shape a b"
  shows "ne_any a b = Inr (a \<noteq> b)"
proof -
  from assms obtain nb rows rows' where ab: "a = Values nb rows" "b = Values nb rows'"
    and shape: "map length rows = map length rows'"
    by (cases a; cases b) auto
  from ne_rows_same_shape [OF shape] obtain d where d: "ne_rows rows rows' = Some d"
    "list_ex (\<lambda>e. e) (concat d) \<longleftrightarrow> rows \<noteq> rows'"
    by blast
  show ?thesis
    using ab d by (simp add: ne_any_def zip_broadcast_def)
qed

lemma bind_err_Inr:
  "bind_err m k = Inr v \<longleftrightarrow> (\<exists>u. m = Inr u \<and> k u = Inr v)"
  by (cases m) (simp_all add: bind_err_def)

lemma SolveInfo_init_fields:
  assumes "SolveInfo_init s x r it fe c d m msg0 t = Inr info"
  shows "solve info = s \<and> SolveInfo.x' info = x \<and> SolveInfo.residual info = r
         \<and> SolveInfo.iterations info = it \<and> SolveInfo.function_evaluations info = fe
         \<and> SolveInfo.converged info = c \<and> SolveInfo.diverged info = d
         \<and> SolveInfo.method' info = m \<and> solve_time info = t"
  using assms
  by (auto simp add: SolveInfo_init_def Let_def split: if_splits option.splits)

lemma SolveInfo_init_msg:
  assumes "SolveInfo_init s x r it fe c d m msg0 t = Inr info"
  shows "if msg0 = [] \<and> all_available [d, c] then msg info \<noteq> [] else msg info = msg0"
  using assms
  by (auto simp add: SolveInfo_init_def Let_def split: if_splits option.splits)

lemma trajectory_at_available:
  assumes "trajectory_at v i = Some s"
  shows "available s = available v \<and> \<not> has_trajectory s"
  using assms by (cases v) auto

lemma snapshot_fields:
  assumes "snapshot self index = Inr s"
  shows "solve s = solve self \<and> SolveInfo.method' s = SolveInfo.method' self
         \<and> solve_time s = solve_time self
         \<and> tree_trajectory_at (SolveInfo.x' self) index = Inr (SolveInfo.x' s)
         \<and> tree_trajectory_at (SolveInfo.residual self) index = Inr (SolveInfo.residual s)
         \<and> opt_trajectory_at (SolveInfo.iterations self) index = Inr (SolveInfo.iterations s)
         \<and> opt_trajectory_at (SolveInfo.function_evaluations self) index
               = Inr (SolveInfo.function_evaluations s)
         \<and> flag_trajectory_at (SolveInfo.converged self) index = Inr (SolveInfo.converged s)
         \<and> flag_trajectory_at (SolveInfo.diverged self) index = Inr (SolveInfo.diverged s)"
  using assms
  by (auto simp add: snapshot_def bind_err_Inr dest: SolveInfo_init_fields)

lemma snapshot_msg:
  assumes snap: "snapshot self index = Inr s"
    and built: "msg self \<noteq> [] \<or> \<not> all_available [SolveInfo.diverged self, SolveInfo.converged self]"
  shows "msg s = msg self"
proof -
  from snap obtain xv r it fe c d where
    c: "flag_trajectory_at (SolveInfo.converged self) index = Inr c"
    and d: "flag_trajectory_at (SolveInfo.diverged self) index = Inr d"
    and init: "SolveInfo_init (solve self) xv r it fe c d (SolveInfo.method' self) (msg self)
                 (solve_time self) = Inr s"
    by (auto simp add: snapshot_def bind_err_Inr)
  from c d have "available c = available (SolveInfo.converged self)"
    "available d = available (SolveInfo.diverged self)"
    by (auto simp add: flag_trajectory_at_def split: option.splits dest: trajectory_at_available)
  then have "\<not> (msg self = [] \<and> all_available [d, c])"
    using built by (auto simp add: all_available_def)
  with SolveInfo_init_msg [OF init] show ?thesis by auto
qed

lemma record_and_check_suppressed:
  assumes "record_result solve0 trj result st = (None, st1)"
    and "all_available [SolveInfo.diverged result, SolveInfo.converged result] \<longrightarrow>
           (any_t (SolveInfo.diverged result) \<longrightarrow> Diverged \<in> set (suppress (solve result)))
           \<and> (\<exists>c. trajectory_at (SolveInfo.converged result) (- 1) = Some c
                  \<and> (\<not> all_t c \<longrightarrow> NotConverged \<in> set (suppress (solve result))))"
  shows "record_and_check solve0 trj result x only_warn st = (Inr x, st1)"
  using assms
  by (auto simp add: record_and_check_def convergence_check_def check_diverged_def
      check_converged_def)

lemma record_and_check_failure:
  assumes "record_result solve0 trj result st = (None, st1)"
    and "all_available [SolveInfo.diverged result, SolveInfo.converged result]"
    and "trajectory_at (SolveInfo.converged result) (- 1) = Some c"
  shows "record_and_check solve0 trj result x only_warn st =
           (if only_warn then
              (Inr x, st1\<lparr>warnings := warnings st1
                 @ (if any_t (SolveInfo.diverged result)
                       \<and> Diverged \<notin> set (suppress (solve result))
                    then [ConvergenceWarning (msg result)] else [])
                 @ (if \<not> all_t c \<and> NotConverged \<notin> set (suppress (solve result))
                    then [ConvergenceWarning (msg result)] else [])\<rparr>)
            else if any_t (SolveInfo.diverged result)
                    \<and> Diverged \<notin> set (suppress (solve result))
              then (Inl (ConvergenceError Diverged result), st1)
            else if \<not> all_t c \<and> NotConverged \<notin> set (suppress (solve result))
              then (Inl (ConvergenceError NotConverged result), st1)
            else (Inr x, st1))"
  using assms
  by (auto simp add: record_and_check_def convergence_check_def check_diverged_def
      check_converged_def warn_def)

lemma linear_solve_result_solve:
  assumes "linear_solve_result backend s op y_nest y_native x0_nest dims_in dims_out trj ta t ret
             = Inr (result, x)"
  shows "solve result = s"
  using assms
  by (auto simp add: linear_solve_result_def Let_def bind_err_Inr
      split: if_splits backend_ret.splits dest: SolveInfo_init_fields)

lemma linear_solve_prepare_solve:
  assumes "linear_solve_prepare store backend t y s op st = Inr (result, x)"
  shows "solve result = s"
  using assms
  by (auto simp add: linear_solve_prepare_def bind_err_Inr
      split: if_splits dest: linear_solve_result_solve)

lemma py_last_eq:
  assumes "py_last rs = Inr r"
  shows "r = last rs"
  using assms
  by (cases rs rule: rev_cases)
     (auto simp add: py_last_def py_index_def Let_def nth_append split: if_splits)

lemma minimize_result_solve:
  assumes "minimize_result s x0_nest x0_natives trj t ret = Inr (result, x)"
  shows "solve result = s
         \<and> x = unflatten_assemble x0_nest x0_natives
                 (SolveResult.x' (case ret of Single r \<Rightarrow> r | Sequence rs \<Rightarrow> last rs))"
  using assms
  by (auto simp add: minimize_result_def Let_def bind_err_Inr
      split: if_splits backend_ret.splits dest: SolveInfo_init_fields py_last_eq)

lemma gradient_solve_again:
  assumes "gradient_solve s st = ((g, s1), st1)"
  shows "gradient_solve s1 st1 = ((g, s1), st1)"
  using assms
  by (auto simp add: gradient_solve_def Solve_init_def uuid4_def set_gradient_solve_def
      split: option.splits)

lemma gradient_solve_x0:
  assumes "gradient_solve s st = ((g, s1), st1)"
  shows "x0 s1 = x0 s"
  using assms
  by (auto simp add: gradient_solve_def Solve_init_def uuid4_def set_gradient_solve_def
      split: option.splits)

lemma copy_with_x0:
  "copy_with g [Set_x0 v] =
     Solve (Solve.method' g) (relative_tolerance g) (absolute_tolerance g) (max_iterations g) v
       (suppress g) (preprocess_y g) (preprocess_y_args g) (gradient_solve_field g) (id' g)"
  by (cases g) (simp add: copy_with_def)

subsection \<open>SolveTape\<close>

text \<open>
  A tape that already holds a result for a solve and records a second one for the same
  token keeps both, and from then on the lookup by that solve finds two entries and
  fails its assertion \<open>len(solves) == 1\<close>.
\<close>

lemma SolveTape_getitem_duplicate:
  assumes dup: "list_ex (\<lambda>s. id' (solve s) = id' solve0) (solves tape)"
    and add: "SolveTape_add tape solve0 trj result st = (Inr tape', st')"
    and own: "solve result = solve0"
  shows "SolveTape_getitem tape' (Key solve0) = Inl (AssertionError [])"
proof -
  from add obtain r where r: "tape' = append_result tape r solve0" "solve r = solve0"
    using own
    by (auto simp add: SolveTape_add_def Let_def split: if_splits sum.splits dest: snapshot_fields)
  from dup have ne: "filter (\<lambda>s. id' (solve s) = id' solve0) (solves tape) \<noteq> []"
    by (simp add: list_ex_iff filter_empty_conv)
  show ?thesis using r ne
    by (simp add: append_result_def Let_def)
qed

text \<open>
  C1. Two results recorded for one solve into an empty tape: neither \<open>_add\<close> raises, the
  second issues the one warning "SolveTape contains two results for the same solve
  settings. SolveTape[solve] will return the first solve result.", and \<open>tape[0]\<close> is the
  first result. The lookup \<open>tape[solve]\<close> does not return the first result: it raises
  AssertionError.
\<close>

theorem duplicate_record_lookup_by_solve_fails:
  "SolveTape_add (SolveTape_init False) demo_solve False first_info demo_state
     = (Inr (append_result (SolveTape_init False) first_info demo_solve), demo_state)
   \<and> SolveTape_add (append_result (SolveTape_init False) first_info demo_solve) demo_solve False
        second_info demo_state
     = (Inr (append_result (append_result (SolveTape_init False) first_info demo_solve)
               second_info demo_solve),
        warn (RuntimeWarning ''SolveTape contains two results for the same solve settings. SolveTape[solve] will return the first solve result.'') demo_state)
   \<and> SolveTape_getitem (append_result (append_result (SolveTape_init False) first_info demo_solve)
               second_info demo_solve) (Index 0) = Inr first_info
   \<and> SolveTape_getitem (append_result (append_result (SolveTape_init False) first_info demo_solve)
               second_info demo_solve) (Key demo_solve) = Inl (AssertionError [])"
  by (simp add: SolveTape_add_def SolveTape_init_def append_result_def first_info_def
      second_info_def py_index_def)

subsection \<open>The convergence check of a linear solve\<close>

text \<open>
  C2. Take a linear solve whose backend call and result construction succeed and whose
  recording into the tapes raises nothing. If the flags of the result are available and
  a failure of a kind that is not suppressed is present (some entry of \<open>diverged\<close> set and
  \<open>Diverged\<close> not suppressed, or the final \<open>converged\<close> not all true and \<open>NotConverged\<close>
  not suppressed), then \<open>_linear_solve_forward\<close> raises the exception of that kind
  (\<open>Diverged\<close> when it applies, else \<open>NotConverged\<close>), carrying the result; except when
  the call is a backward pass and the name of the backend contains \<open>TensorFlow\<close>: then,
  and only then, it returns \<open>x\<close> and issues one warning per failure instead.
\<close>

theorem linear_solve_failure_raises_unless_backprop_on_TensorFlow:
  assumes prep: "linear_solve_prepare store backend t y solve0 op st = Inr (result, x)"
    and rec: "record_result solve0 (trj_requested st) result st = (None, st1)"
    and avail: "all_available [SolveInfo.diverged result, SolveInfo.converged result]"
    and final: "trajectory_at (SolveInfo.converged result) (- 1) = Some c"
    and failure: "(any_t (SolveInfo.diverged result) \<and> Diverged \<notin> set (suppress solve0))
                  \<or> (\<not> all_t c \<and> NotConverged \<notin> set (suppress solve0))"
  shows "linear_solve_forward store backend t y solve0 op is_backprop st =
           (if is_backprop \<and> str_in ''TensorFlow'' (name backend) then
              (Inr x, st1\<lparr>warnings := warnings st1
                 @ (if any_t (SolveInfo.diverged result) \<and> Diverged \<notin> set (suppress solve0)
                    then [ConvergenceWarning (msg result)] else [])
                 @ (if \<not> all_t c \<and> NotConverged \<notin> set (suppress solve0)
                    then [ConvergenceWarning (msg result)] else [])\<rparr>)
            else
              (Inl (ConvergenceError
                      (if any_t (SolveInfo.diverged result) \<and> Diverged \<notin> set (suppress solve0)
                       then Diverged else NotConverged) result), st1))"
proof -
  have s: "solve result = solve0"
    using prep by (rule linear_solve_prepare_solve)
  have "linear_solve_forward store backend t y solve0 op is_backprop st =
          record_and_check solve0 (trj_requested st) result x
            (is_backprop \<and> str_in ''TensorFlow'' (name backend)) st"
    using prep by (simp add: linear_solve_forward_def)
  also note record_and_check_failure [OF rec avail final]
  finally show ?thesis
    using failure s by auto
qed

theorem linear_solve_failure_raises_witness:
  "linear_solve_forward no_hooks (fixed_backend ''TensorFlow'' (Single (step [1, 1] False False)))
       0 demo_y strict_solve demo_op True demo_state
     = (Inr (Leaf (Values [2] [[1, 1]])),
        demo_state\<lparr>warnings := [ConvergenceWarning (msg (unconverged_info strict_solve))]\<rparr>)
   \<and> linear_solve_forward no_hooks (fixed_backend ''TensorFlow'' (Single (step [1, 1] False False)))
       0 demo_y strict_solve demo_op False demo_state
     = (Inl (ConvergenceError NotConverged (unconverged_info strict_solve)), demo_state)
   \<and> linear_solve_forward no_hooks (fixed_backend ''PyTorch'' (Single (step [1, 1] False False)))
       0 demo_y strict_solve demo_op True demo_state
     = (Inl (ConvergenceError NotConverged (unconverged_info strict_solve)), demo_state)"
proof -
  have prep: "linear_solve_prepare no_hooks (fixed_backend nm (Single (step [1, 1] False False)))
       0 demo_y strict_solve demo_op demo_state
       = Inr (unconverged_info strict_solve, Leaf (Values [2] [[1, 1]]))" for nm
    by (simp add: eval_defs)
  have rec: "record_result strict_solve (trj_requested demo_state) (unconverged_info strict_solve)
       demo_state = (None, demo_state)"
    by (simp add: eval_defs)
  have avail: "all_available [SolveInfo.diverged (unconverged_info strict_solve),
       SolveInfo.converged (unconverged_info strict_solve)]"
    by (simp add: eval_defs)
  have final: "trajectory_at (SolveInfo.converged (unconverged_info strict_solve)) (- 1)
       = Some (Values [] [[False]])"
    by (simp add: eval_defs)
  have failure: "(any_t (SolveInfo.diverged (unconverged_info strict_solve))
                    \<and> Diverged \<notin> set (suppress strict_solve))
                  \<or> (\<not> all_t (Values [] [[False]]) \<and> NotConverged \<notin> set (suppress strict_solve))"
    by (simp add: eval_defs)
  note th = linear_solve_failure_raises_unless_backprop_on_TensorFlow
              [OF prep rec avail final failure]
  show ?thesis
    using th [of "''TensorFlow''" True] th [of "''TensorFlow''" False] th [of "''PyTorch''" True]
    by (simp add: eval_defs)
qed

subsection \<open>Trajectories\<close>

text \<open>
  C3. A linear solve and a minimization, each run while a tape records trajectories, on
  a backend that reports two steps. In the result the tape holds, \<open>x\<close>, \<open>residual\<close> and
  \<open>function_evaluations\<close> have the trajectory dimension; \<open>iterations\<close>, \<open>converged\<close> and
  \<open>diverged\<close> are those of the last step and have none.
\<close>

theorem trajectory_fields_of_recorded_result:
  "map trajectory_axes
     (recorded (linear_solve_forward no_hooks
        (fixed_backend ''NumPy'' (Sequence [step [0, 0] False False, step [2, 3] True False]))
        0 demo_y demo_solve demo_op False tape_state))
     = [[True, True, False, True, False, False]]
   \<and> map trajectory_axes
     (recorded (minimize
        (fixed_backend ''NumPy'' (Sequence [min_step [0, 0] False False, min_step [2, 3] True False]))
        0 scalar_f demo_solve tape_state))
     = [[True, True, False, True, False, False]]"
  by (simp add: eval_defs recorded_def trajectory_axes_def)

subsection \<open>The gradient solve\<close>

text \<open>
  C4. Called with the arguments of a forward call that hold a solve under \<open>solve\<close>, the
  gradient function reads the gradient solve \<open>g\<close> of that solve and calls the wrapped
  forward solve again: positionally with the upstream gradient \<open>dx\<close> as target, a copy of
  \<open>g\<close> whose \<open>x0\<close> is that of \<open>g\<close> if set and else \<open>zeros_like\<close> of the forward
  solve's \<open>x0\<close>, and the matrix of the forward call if there was one; by keyword with
  \<open>is_backprop = True\<close> in place of any earlier \<open>is_backprop\<close>, and with the other
  arguments of the forward call. What that call returns is returned under the key \<open>y\<close>.
\<close>

theorem implicit_gradient_solve_reruns_solve:
  assumes "kwargs0 ''solve'' = Some (PSolve solve0)"
  shows "\<exists>g solve1 st1 gs args kw.
           gradient_solve solve0 st = ((g, solve1), st1)
         \<and> implicit_gradient_solve solve_with_grad kwargs0 x dx st
             = (case solve_with_grad args kw st1 of
                  (Inl e, st3) \<Rightarrow> (Inl e, st3)
                | (Inr dy, st3) \<Rightarrow> (Inr [''y'' \<mapsto> dy], st3))
         \<and> args = [PTree dx, PSolve gs]
                    @ (case kwargs0 ''matrix'' of Some m \<Rightarrow> [m] | None \<Rightarrow> [])
         \<and> x0 gs = (if x0 g \<noteq> NoneT then x0 g else zeros_like (x0 solve0))
         \<and> gs = copy_with g [Set_x0 (x0 gs)]
         \<and> kw ''is_backprop'' = Some (PBool True)
         \<and> kw ''solve'' = Some (PSolve solve1)
         \<and> (\<forall>key. key \<noteq> ''is_backprop'' \<and> key \<noteq> ''solve'' \<longrightarrow> kw key = kwargs0 key)"
proof -
  obtain g solve1 st1 where gs: "gradient_solve solve0 st = ((g, solve1), st1)"
    by (metis prod.exhaust)
  note again = gradient_solve_again [OF gs]
  note same = gradient_solve_x0 [OF gs]
  let ?v = "if x0 g \<noteq> NoneT then x0 g else zeros_like (x0 solve0)"
  let ?gs = "copy_with g [Set_x0 ?v]"
  let ?kw = "((kwargs0(''solve'' \<mapsto> PSolve solve1))(''is_backprop'' := None))
               (''is_backprop'' \<mapsto> PBool True)"
  have x0gs: "x0 ?gs = ?v" by (simp add: copy_with_x0)
  have "implicit_gradient_solve solve_with_grad kwargs0 x dx st
          = (case solve_with_grad ([PTree dx, PSolve ?gs]
                 @ (case kwargs0 ''matrix'' of Some m \<Rightarrow> [m] | None \<Rightarrow> [])) ?kw st1 of
               (Inl e, st3) \<Rightarrow> (Inl e, st3)
             | (Inr dy, st3) \<Rightarrow> (Inr [''y'' \<mapsto> dy], st3))"
    using assms gs again same by (simp add: implicit_gradient_solve_def Let_def)
  moreover have "?gs = copy_with g [Set_x0 (x0 ?gs)]"
    by (simp only: x0gs)
  moreover have "?kw ''is_backprop'' = Some (PBool True)" "?kw ''solve'' = Some (PSolve solve1)"
    "\<forall>key. key \<noteq> ''is_backprop'' \<and> key \<noteq> ''solve'' \<longrightarrow> ?kw key = kwargs0 key"
    by simp_all
  ultimately show ?thesis using gs x0gs by blast
qed

theorem implicit_gradient_solve_reruns_witness:
  "forward_kwargs ''solve'' = Some (PSolve strict_solve)
   \<and> (\<exists>g solve1 st1 gs.
         gradient_solve strict_solve demo_state = ((g, solve1), st1)
       \<and> implicit_gradient_solve
            (matrix_solve_with_grad no_hooks (fixed_backend ''TensorFlow'' (Single (step [1, 1] True False))))
            forward_kwargs NoneT (Leaf (Values [2] [[1, 1]])) demo_state
           = (case matrix_solve_with_grad no_hooks
                     (fixed_backend ''TensorFlow'' (Single (step [1, 1] True False)))
                     [PTree (Leaf (Values [2] [[1, 1]])), PSolve gs, PMatrix [[2, 0], [0, 2]]]
                     ((forward_kwargs(''solve'' \<mapsto> PSolve solve1))(''is_backprop'' \<mapsto> PBool True)) st1 of
                (Inl e, st3) \<Rightarrow> (Inl e, st3)
              | (Inr dy, st3) \<Rightarrow> (Inr [''y'' \<mapsto> dy], st3))
       \<and> x0 gs = Leaf (Values [2] [[0, 0]]) \<and> id' gs = 1 \<and> Solve.method' gs = ''CG'')"
proof -
  let ?swg = "matrix_solve_with_grad no_hooks
            (fixed_backend ''TensorFlow'' (Single (step [1, 1] True False)))"
  let ?dx = "Leaf (Values [2] [[1, 1]])"
  have a: "forward_kwargs ''solve'' = Some (PSolve strict_solve)"
    by (simp add: forward_kwargs_def)
  have ex: "\<exists>g solve1 st1 gs args kw.
           gradient_solve strict_solve demo_state = ((g, solve1), st1)
         \<and> implicit_gradient_solve ?swg forward_kwargs NoneT ?dx demo_state
             = (case ?swg args kw st1 of
                  (Inl e, st3) \<Rightarrow> (Inl e, st3)
                | (Inr dy, st3) \<Rightarrow> (Inr [''y'' \<mapsto> dy], st3))
         \<and> args = [PTree ?dx, PSolve gs]
                    @ (case forward_kwargs ''matrix'' of Some m \<Rightarrow> [m] | None \<Rightarrow> [])
         \<and> x0 gs = (if x0 g \<noteq> NoneT then x0 g else zeros_like (x0 strict_solve))
         \<and> gs = copy_with g [Set_x0 (x0 gs)]
         \<and> kw ''is_backprop'' = Some (PBool True)
         \<and> kw ''solve'' = Some (PSolve solve1)
         \<and> (\<forall>key. key \<noteq> ''is_backprop'' \<and> key \<noteq> ''solve'' \<longrightarrow> kw key = forward_kwargs key)"
    by (rule implicit_gradient_solve_reruns_solve [where ?kwargs0.0 = forward_kwargs
      and ?solve0.0 = strict_solve and st = demo_state
      and solve_with_grad = ?swg and x = NoneT and dx = ?dx, OF a])
  then obtain g solve1 st1 gs args kw where
    h1: "gradient_solve strict_solve demo_state = ((g, solve1), st1)"
    and h2: "implicit_gradient_solve ?swg forward_kwargs NoneT ?dx demo_state
             = (case ?swg args kw st1 of
                  (Inl e, st3) \<Rightarrow> (Inl e, st3)
                | (Inr dy, st3) \<Rightarrow> (Inr [''y'' \<mapsto> dy], st3))"
    and h3: "args = [PTree ?dx, PSolve gs]
                    @ (case forward_kwargs ''matrix'' of Some m \<Rightarrow> [m] | None \<Rightarrow> [])"
    and h4: "x0 gs = (if x0 g \<noteq> NoneT then x0 g else zeros_like (x0 strict_solve))"
    and h5: "gs = copy_with g [Set_x0 (x0 gs)]"
    and h6: "kw ''is_backprop'' = Some (PBool True)"
    and h7: "kw ''solve'' = Some (PSolve solve1)"
    and h8: "\<forall>key. key \<noteq> ''is_backprop'' \<and> key \<noteq> ''solve'' \<longrightarrow> kw key = forward_kwargs key"
    by (elim exE conjE)
  have kw: "kw = (forward_kwargs(''solve'' \<mapsto> PSolve solve1))(''is_backprop'' \<mapsto> PBool True)"
  proof (rule ext)
    fix key
    show "kw key = ((forward_kwargs(''solve'' \<mapsto> PSolve solve1))(''is_backprop'' \<mapsto> PBool True)) key"
      using h6 h7 h8 by (cases "key = ''is_backprop''"; cases "key = ''solve''") simp_all
  qed
  have g: "g = Solve ''CG'' (PyTensor (Values [] [[0]])) (Values [] [[1 / 1024]]) (Values [] [[100]])
     NoneT [] None [] None 1"
    using h1
    by (simp add: gradient_solve_def Solve_init_def uuid4_def strict_solve_def demo_state_def)
  have args: "args = [PTree ?dx, PSolve gs, PMatrix [[2, 0], [0, 2]]]"
    using h3 by (simp add: forward_kwargs_def)
  have x0gs: "x0 gs = Leaf (Values [2] [[0, 0]])"
    using h4 by (simp add: g strict_solve_def)
  have "gs = copy_with g [Set_x0 (Leaf (Values [2] [[0, 0]]))]"
    using h5 x0gs by simp
  then have idm: "id' gs = 1" "Solve.method' gs = ''CG''"
    by (simp_all add: g copy_with_def)
  have body: "gradient_solve strict_solve demo_state = ((g, solve1), st1)
       \<and> implicit_gradient_solve ?swg forward_kwargs NoneT ?dx demo_state
           = (case ?swg [PTree ?dx, PSolve gs, PMatrix [[2, 0], [0, 2]]]
                     ((forward_kwargs(''solve'' \<mapsto> PSolve solve1))(''is_backprop'' \<mapsto> PBool True)) st1 of
                (Inl e, st3) \<Rightarrow> (Inl e, st3)
              | (Inr dy, st3) \<Rightarrow> (Inr [''y'' \<mapsto> dy], st3))
       \<and> x0 gs = Leaf (Values [2] [[0, 0]]) \<and> id' gs = 1 \<and> Solve.method' gs = ''CG''"
    using h1 h2 x0gs idm unfolding kw args by (intro conjI)
  show ?thesis
    by (rule conjI [OF a]) (intro exI, rule body)
qed

subsection \<open>solve_nonlinear\<close>

text \<open>
  C5. When the preprocess hook, if set, turns \<open>y\<close> into \<open>y1\<close> (else \<open>y1\<close> is \<open>y\<close>),
  \<open>solve_nonlinear\<close> hands \<open>minimize\<close> the loss \<open>l2_loss(f(x) - y1)\<close> and a copy of the
  solve whose absolute tolerance is the relative tolerance times \<open>l2_loss(y1)\<close> and whose
  preprocess hook is unset. As relative tolerance the copy holds the Python number \<open>0\<close>,
  not a tensor, so the first assertion of \<open>minimize\<close> raises AttributeError: no call of
  \<open>solve_nonlinear\<close> whose hook succeeds minimizes anything.
\<close>

theorem solve_nonlinear_raises_AttributeError:
  assumes "(case preprocess_y s of None \<Rightarrow> Inr y | Some h \<Rightarrow> store h [y]) = Inr y1"
  shows "\<exists>derived.
           solve_nonlinear store l2_loss backend t f y s st
             = minimize backend t (min_func l2_loss f y1) derived st
         \<and> absolute_tolerance derived = py_mul (relative_tolerance s) (l2_loss y1)
         \<and> relative_tolerance derived = PyNumber 0
         \<and> preprocess_y derived = None
         \<and> Solve.method' derived = Solve.method' s
         \<and> max_iterations derived = max_iterations s
         \<and> x0 derived = x0 s
         \<and> suppress derived = suppress s
         \<and> solve_nonlinear store l2_loss backend t f y s st
             = (Inl (AttributeError ''bool object has no attribute all''), st)"
proof -
  let ?derived = "copy_with s [Set_absolute_tolerance (py_mul (relative_tolerance s) (l2_loss y1)),
                     Set_relative_tolerance (PyNumber 0), Set_preprocess_y None]"
  have del: "solve_nonlinear store l2_loss backend t f y s st
          = minimize backend t (min_func l2_loss f y1) ?derived st"
    using assms by (simp add: solve_nonlinear_def Let_def)
  have fields: "absolute_tolerance ?derived = py_mul (relative_tolerance s) (l2_loss y1)"
    "relative_tolerance ?derived = PyNumber 0" "preprocess_y ?derived = None"
    "Solve.method' ?derived = Solve.method' s" "max_iterations ?derived = max_iterations s"
    "x0 ?derived = x0 s" "suppress ?derived = suppress s"
    by (cases s; simp add: copy_with_def)+
  have "minimize backend t (min_func l2_loss f y1) ?derived st
          = (Inl (AttributeError ''bool object has no attribute all''), st)"
    by (simp add: minimize_def fields(2))
  with del fields show ?thesis by metis
qed

theorem solve_nonlinear_raises_AttributeError_witness:
  "(case preprocess_y hooked_solve of None \<Rightarrow> Inr demo_y | Some h \<Rightarrow> first_arg_hooks h [demo_y])
     = Inr demo_y
   \<and> solve_nonlinear first_arg_hooks half_square_sum
        (fixed_backend ''PyTorch'' (Single (min_step [1, 1] True False))) 0 scalar_f demo_y
        hooked_solve demo_state
      = (Inl (AttributeError ''bool object has no attribute all''), demo_state)"
proof -
  have a: "(case preprocess_y hooked_solve of None \<Rightarrow> Inr demo_y
            | Some h \<Rightarrow> first_arg_hooks h [demo_y]) = Inr demo_y"
    by (simp add: hooked_solve_def first_arg_hooks_def)
  from solve_nonlinear_raises_AttributeError [where s = hooked_solve and y = demo_y
      and store = first_arg_hooks and ?y1.0 = demo_y and ?l2_loss = half_square_sum
      and backend = "fixed_backend ''PyTorch'' (Single (min_step [1, 1] True False))"
      and t = 0 and f = scalar_f and st = demo_state, OF a]
  have "solve_nonlinear first_arg_hooks half_square_sum
        (fixed_backend ''PyTorch'' (Single (min_step [1, 1] True False))) 0 scalar_f demo_y
        hooked_solve demo_state
      = (Inl (AttributeError ''bool object has no attribute all''), demo_state)"
    by (elim exE conjE)
  with a show ?thesis by (rule conjI)
qed

subsection \<open>Solve\<close>

text \<open>
  C6. The first read of \<open>gradient_solve\<close> on a solve whose \<open>_gradient_solve\<close> is unset
  builds a solve with the same method, tolerances, iteration budget, suppression tuple,
  preprocess hook and hook arguments, with \<open>x0 = None\<close>, no gradient solve of its own and
  a fresh token, which differs from the parent's when the parent's token was issued by
  the same source. (The relative tolerance passes through the constructor: it is the
  parent's tensor, or the parent's Python number wrapped and cast.) The read stores it in the parent and changes nothing else: the tapes
  and warnings of the state are as before. Every later read, in any state, returns the
  stored solve and leaves the parent and the state as they are.
\<close>

theorem gradient_solve_first_read_caches:
  assumes unset: "gradient_solve_field self = None"
    and issued: "id' self < uuid_next st"
  shows "\<exists>g self'. gradient_solve self st = ((g, self'), st\<lparr>uuid_next := Suc (uuid_next st)\<rparr>)
           \<and> Solve.method' g = Solve.method' self
           \<and> relative_tolerance g
                 = PyTensor (wrap_to_float (float_cast st) (relative_tolerance self))
           \<and> (\<forall>r. relative_tolerance self = PyTensor r \<longrightarrow>
                    relative_tolerance g = relative_tolerance self)
           \<and> absolute_tolerance g = absolute_tolerance self
           \<and> max_iterations g = max_iterations self
           \<and> suppress g = suppress self
           \<and> preprocess_y g = preprocess_y self
           \<and> preprocess_y_args g = preprocess_y_args self
           \<and> x0 g = NoneT
           \<and> gradient_solve_field g = None
           \<and> id' g = uuid_next st \<and> id' g \<noteq> id' self
           \<and> self' = set_gradient_solve self (Some g)
           \<and> gradient_solve_field self' = Some g
           \<and> (\<forall>st2. gradient_solve self' st2 = ((g, self'), st2))"
  using unset issued
  by (simp add: gradient_solve_def Solve_init_def uuid4_def set_gradient_solve_def)

theorem gradient_solve_first_read_caches_witness:
  "gradient_solve_field demo_solve = None \<and> id' demo_solve < uuid_next demo_state
   \<and> (\<exists>g self'. gradient_solve demo_solve demo_state
                    = ((g, self'), demo_state\<lparr>uuid_next := Suc (uuid_next demo_state)\<rparr>)
         \<and> id' g = 1 \<and> x0 g = NoneT \<and> Solve.method' g = ''CG''
         \<and> relative_tolerance g = relative_tolerance demo_solve
         \<and> (\<forall>st2. gradient_solve self' st2 = ((g, self'), st2)))"
proof -
  have a: "gradient_solve_field demo_solve = None"
    by (simp add: demo_solve_def)
  have b: "id' demo_solve < uuid_next demo_state"
    by (simp add: demo_solve_def demo_state_def)
  from gradient_solve_first_read_caches [OF a b] obtain g self' where
    h: "gradient_solve demo_solve demo_state
          = ((g, self'), demo_state\<lparr>uuid_next := Suc (uuid_next demo_state)\<rparr>)"
       "Solve.method' g = Solve.method' demo_solve" "x0 g = NoneT"
       "id' g = uuid_next demo_state"
       "\<forall>st2. gradient_solve self' st2 = ((g, self'), st2)"
       "\<forall>r. relative_tolerance demo_solve = PyTensor r \<longrightarrow>
              relative_tolerance g = relative_tolerance demo_solve"
    by blast
  have "id' g = 1" "Solve.method' g = ''CG''"
    using h by (simp_all add: demo_state_def demo_solve_def)
  moreover have "relative_tolerance g = relative_tolerance demo_solve"
    using h(6) by (simp add: demo_solve_def)
  ultimately have "id' g = 1" "Solve.method' g = ''CG''"
    "relative_tolerance g = relative_tolerance demo_solve"
    by simp_all
  with a b h show ?thesis by blast
qed

text \<open>
  C7, as the claim states it, fails in two ways. A solve built with absolute tolerance
  \<open>1\<close> and one built with \<open>1 + 2 ^ (- 30)\<close> store the same 32-bit float, so the changed
  tolerance does not break equality. And two solves with identical fields and a tensor
  as initial guess, built from the same arguments, do not compare to \<open>True\<close>: \<open>__eq__\<close>
  returns the tensor of the entrywise comparisons of the guesses.
\<close>

theorem Solve_eq_float32_and_tensor_x0:
  "(1 :: real) \<noteq> 1 + 1 / 2 ^ 30
   \<and> Solve_eq py_eq
        (fst (Solve_init ''CG'' (PyNumber 0) (PyNumber 1) (PyNumber 100) NoneT [] None []
                None demo_state))
        (fst (Solve_init ''CG'' (PyNumber 0) (PyNumber (1 + 1 / 2 ^ 30)) (PyNumber 100) NoneT []
                None [] None demo_state))
      = Inr (PyBool True)
   \<and> Solve_eq py_eq
        (fst (Solve_init ''CG'' (PyNumber 0) (PyNumber 1) (PyNumber 100)
                (Leaf (Values [2] [[0, 0]])) [] None [] None demo_state))
        (fst (Solve_init ''CG'' (PyNumber 0) (PyNumber 1) (PyNumber 100)
                (Leaf (Values [2] [[0, 0]])) [] None [] None (demo_state\<lparr>uuid_next := 7\<rparr>)))
      = Inr (Elementwise (Values [2] [[True, True]]))"
proof -
  have f: "float32 (1073741825 / 1073741824) = 1"
    using float32_sample_values(4) by simp
  show ?thesis
    by (simp add: Solve_eq_def Solve_init_def uuid4_def demo_state_def demo_solve_def f
        float32_sample_values int32_def ne_any_def ne_rows_def zip_broadcast_def bind_err_def)
qed

text \<open>
  C7, amended. For two solves whose tolerances and iteration budgets are tensors with
  entries and of pairwise the same shape, \<open>__eq__\<close> returns \<open>False\<close> when the method, a
  stored tolerance, the stored iteration budget, the reference of the preprocess hook or
  the suppression tuple differ, and otherwise returns what \<open>==\<close> of the two initial
  guesses returns; the token, the hook arguments and the cached gradient solve are never
  read. So solves built from the same arguments with \<open>x0 = None\<close> are equal whatever
  their tokens, and a change of a stored tolerance breaks equality.
\<close>

theorem Solve_eq_compares_stored_fields_not_id:
  assumes "relative_tolerance a = PyTensor ra" and "relative_tolerance b = PyTensor rb"
    and "same_shape (absolute_tolerance a) (absolute_tolerance b)"
    and "same_shape ra rb"
    and "same_shape (max_iterations a) (max_iterations b)"
  shows "Solve_eq eq_x0 a b =
           (if Solve.method' a = Solve.method' b
               \<and> absolute_tolerance a = absolute_tolerance b
               \<and> ra = rb
               \<and> max_iterations a = max_iterations b
               \<and> preprocess_y a = preprocess_y b
               \<and> suppress a = suppress b
            then eq_x0 (x0 a) (x0 b)
            else Inr (PyBool False))"
proof -
  have d1: "ne_any (absolute_tolerance a) (absolute_tolerance b)
              = Inr (absolute_tolerance a \<noteq> absolute_tolerance b)"
    using assms(3) by (rule ne_any_same_shape)
  have d2: "py_ne_any (relative_tolerance a) (relative_tolerance b) = Inr (ra \<noteq> rb)"
    using assms(1,2,4) by (simp add: ne_any_same_shape)
  have d3: "ne_any (max_iterations a) (max_iterations b)
              = Inr (max_iterations a \<noteq> max_iterations b)"
    using assms(5) by (rule ne_any_same_shape)
  show ?thesis
    unfolding Solve_eq_def d1 d2 d3 by (simp add: bind_err_def)
qed

theorem Solve_eq_compares_stored_fields_witness:
  "id' (fst (Solve_init ''CG'' (PyNumber 0) (PyNumber 1) (PyNumber 100) NoneT [Diverged] None
               [] None demo_state))
     \<noteq> id' (fst (Solve_init ''CG'' (PyNumber 0) (PyNumber 1) (PyNumber 100) NoneT [Diverged]
                   None [] None (demo_state\<lparr>uuid_next := 7\<rparr>)))
   \<and> Solve_eq py_eq
        (fst (Solve_init ''CG'' (PyNumber 0) (PyNumber 1) (PyNumber 100) NoneT [Diverged] None
                [] None demo_state))
        (fst (Solve_init ''CG'' (PyNumber 0) (PyNumber 1) (PyNumber 100) NoneT [Diverged] None
                [] None (demo_state\<lparr>uuid_next := 7\<rparr>)))
      = Inr (PyBool True)
   \<and> Solve_eq py_eq
        (fst (Solve_init ''CG'' (PyNumber 0) (PyNumber 1) (PyNumber 100) NoneT [Diverged] None
                [] None demo_state))
        (fst (Solve_init ''CG'' (PyNumber 0) (PyNumber (3 / 2)) (PyNumber 100) NoneT [Diverged]
                None [] None demo_state))
      = Inr (PyBool False)"
proof -
  let ?a = "fst (Solve_init ''CG'' (PyNumber 0) (PyNumber 1) (PyNumber 100) NoneT [Diverged] None
                [] None demo_state)"
  let ?b = "fst (Solve_init ''CG'' (PyNumber 0) (PyNumber 1) (PyNumber 100) NoneT [Diverged] None
                [] None (demo_state\<lparr>uuid_next := 7\<rparr>))"
  let ?c = "fst (Solve_init ''CG'' (PyNumber 0) (PyNumber (3 / 2)) (PyNumber 100) NoneT [Diverged]
                None [] None demo_state)"
  have a: "?a = Solve ''CG'' (PyTensor (Values [] [[0]])) (Values [] [[1]]) (Values [] [[100]])
                  NoneT [Diverged] None [] None 1"
    and b: "?b = Solve ''CG'' (PyTensor (Values [] [[0]])) (Values [] [[1]]) (Values [] [[100]])
                  NoneT [Diverged] None [] None 7"
    and c: "?c = Solve ''CG'' (PyTensor (Values [] [[0]])) (Values [] [[3 / 2]])
                  (Values [] [[100]]) NoneT [Diverged] None [] None 1"
    by (simp_all add: Solve_init_def uuid4_def demo_state_def float32_sample_values int32_def)
  have "Solve_eq py_eq ?a ?b = Inr (PyBool True)"
    using Solve_eq_compares_stored_fields_not_id [where a = ?a and b = ?b
        and ra = "Values [] [[0]]" and rb = "Values [] [[0]]" and ?eq_x0.0 = py_eq]
    by (simp add: a b)
  moreover have "Solve_eq py_eq ?a ?c = Inr (PyBool False)"
    using Solve_eq_compares_stored_fields_not_id [where a = ?a and b = ?c
        and ra = "Values [] [[0]]" and rb = "Values [] [[0]]" and ?eq_x0.0 = py_eq]
    by (simp add: a c)
  moreover have "id' ?a \<noteq> id' ?b"
    by (simp add: a b)
  ultimately show ?thesis by (intro conjI)
qed

subsection \<open>Suppressed failures\<close>

text \<open>
  When every failure condition the result meets is suppressed (\<open>Diverged\<close> when some
  entry of \<open>diverged\<close> is set, \<open>NotConverged\<close> when the final \<open>converged\<close> is not all
  true), \<open>minimize\<close> and \<open>_linear_solve_forward\<close> return \<open>x\<close> and issue no warning; the
  \<open>x\<close> of \<open>minimize\<close> is the iterate the backend reported (the last one of a trajectory),
  put back into the structure of \<open>x0\<close>.
\<close>

lemma minimize_returns_x_when_failures_suppressed:
  assumes zero: "relative_tolerance_is_zero (relative_tolerance solve0) = Inr True"
    and nohook: "preprocess_y solve0 = None"
    and flat: "concat' backend (tensors_of (x0 solve0)) = Inr x0_flat"
    and ret: "Backend.minimize backend (Solve.method' solve0)
                (native_function f (x0 solve0) (tensors_of (x0 solve0))) x0_flat
                (absolute_tolerance solve0) (max_iterations solve0) (trj_requested st) = Inr ret"
    and res: "minimize_result solve0 (x0 solve0) (tensors_of (x0 solve0)) (trj_requested st) t ret
                = Inr (result, x)"
    and rec: "record_result solve0 (trj_requested st) result st = (None, st1)"
    and final: "trajectory_at (SolveInfo.converged result) (- 1) = Some c"
    and supd: "any_t (SolveInfo.diverged result) \<longrightarrow> Diverged \<in> set (suppress solve0)"
    and supn: "\<not> all_t c \<longrightarrow> NotConverged \<in> set (suppress solve0)"
  shows "minimize backend t f solve0 st = (Inr x, st1)
         \<and> x = unflatten_assemble (x0 solve0) (tensors_of (x0 solve0))
                 (SolveResult.x' (case ret of Single r \<Rightarrow> r | Sequence rs \<Rightarrow> last rs))"
proof -
  from minimize_result_solve [OF res] have s: "solve result = solve0"
    and xeq: "x = unflatten_assemble (x0 solve0) (tensors_of (x0 solve0))
                 (SolveResult.x' (case ret of Single r \<Rightarrow> r | Sequence rs \<Rightarrow> last rs))"
    by simp_all
  have ms: "minimize_solve backend t f solve0 st = Inr (result, x)"
    using flat ret res by (simp add: minimize_solve_def disassemble_tree_def bind_err_def)
  have "record_and_check solve0 (trj_requested st) result x False st = (Inr x, st1)"
    using rec final supd supn s by (intro record_and_check_suppressed) auto
  then have "minimize backend t f solve0 st = (Inr x, st1)"
    using zero nohook ms by (simp add: minimize_def)
  with xeq show ?thesis by simp
qed

lemma linear_solve_returns_x_when_failures_suppressed:
  assumes prep: "linear_solve_prepare store backend t y solve0 op st = Inr (result, x)"
    and rec: "record_result solve0 (trj_requested st) result st = (None, st1)"
    and final: "trajectory_at (SolveInfo.converged result) (- 1) = Some c"
    and supd: "any_t (SolveInfo.diverged result) \<longrightarrow> Diverged \<in> set (suppress solve0)"
    and supn: "\<not> all_t c \<longrightarrow> NotConverged \<in> set (suppress solve0)"
  shows "linear_solve_forward store backend t y solve0 op is_backprop st = (Inr x, st1)"
proof -
  have s: "solve result = solve0"
    using prep by (rule linear_solve_prepare_solve)
  have "record_and_check solve0 (trj_requested st) result x
          (is_backprop \<and> str_in ''TensorFlow'' (name backend)) st = (Inr x, st1)"
    using rec final supd supn s by (intro record_and_check_suppressed) auto
  then show ?thesis
    using prep by (simp add: linear_solve_forward_def)
qed

lemma lenient_solve_returns_partial_iterate:
  "minimize (fixed_backend ''NumPy'' (Single (min_step [1, 1] False False))) 0 scalar_f
       lenient_solve demo_state
     = (Inr (Leaf (Values [2] [[1, 1]])), demo_state)"
  "linear_solve_forward no_hooks (fixed_backend ''NumPy'' (Single (step [1, 1] False False))) 0
       demo_y lenient_solve demo_op False demo_state
     = (Inr (Leaf (Values [2] [[1, 1]])), demo_state)"
  by (simp_all add: eval_defs)

text \<open>
  C8. A solve that suppresses \<open>Diverged\<close> and whose backend reports one diverged,
  unconverged step: the result carries the message "Solve diverged ...", the divergence
  is passed over, and both \<open>minimize\<close> and \<open>_linear_solve_forward\<close> then raise
  \<open>NotConverged\<close> instead of returning the partial \<open>x\<close>.
\<close>

theorem suppressed_Diverged_still_raises_NotConverged:
  "Diverged \<in> set (suppress demo_solve)
   \<and> any_t (SolveResult.diverged (min_step [1, 1] False True))
   \<and> raised (fst (minimize (fixed_backend ''NumPy'' (Single (min_step [1, 1] False True))) 0
                 scalar_f demo_solve demo_state)) = Some NotConverged
   \<and> raised_msg (fst (minimize (fixed_backend ''NumPy'' (Single (min_step [1, 1] False True))) 0
                 scalar_f demo_solve demo_state))
       = Some ''Solve diverged within <tensor> iterations using CG.''
   \<and> raised (fst (linear_solve_forward no_hooks
                 (fixed_backend ''NumPy'' (Single (step [1, 1] False True))) 0 demo_y demo_solve
                 demo_op False demo_state)) = Some NotConverged
   \<and> raised_msg (fst (linear_solve_forward no_hooks
                 (fixed_backend ''NumPy'' (Single (step [1, 1] False True))) 0 demo_y demo_solve
                 demo_op False demo_state))
       = Some ''Solve diverged within <tensor> iterations using CG.''"
  by (simp add: eval_defs raised_def raised_msg_def)

subsection \<open>Structural preconditions\<close>



text \<open>
  The assertion of the objective wrapper reaches the caller of \<open>minimize\<close> whenever the
  backend passes on what the objective raises.
\<close>

lemma minimize_fails_when_backend_propagates:
  assumes "relative_tolerance_is_zero (relative_tolerance solve0) = Inr True"
    and "preprocess_y solve0 = None"
    and "concat' backend (tensors_of (x0 solve0)) = Inr x0_flat"
    and "native_function f (x0 solve0) (tensors_of (x0 solve0)) x0_flat = Inl e"
    and "\<And>m obj v atol maxi trj. obj v = Inl e \<Longrightarrow>
           Backend.minimize backend m obj v atol maxi trj = Inl e"
  shows "minimize backend t f solve0 st = (Inl e, st)"
  using assms
  by (simp add: minimize_def minimize_solve_def disassemble_tree_def bind_err_def)

subsection \<open>The convergence check\<close>

text \<open>
  C10. The two conditions of \<open>convergence_check\<close> are checked one after the other. When
  the flags are available, some entry of \<open>diverged\<close> is set and \<open>Diverged\<close> is
  suppressed, the final \<open>converged\<close> flags are not all true and \<open>NotConverged\<close> is not
  suppressed, the check raises \<open>NotConverged\<close>, or issues one warning when it only warns.
\<close>

theorem convergence_check_sequential:
  assumes "all_available [SolveInfo.diverged self, SolveInfo.converged self]"
    and "any_t (SolveInfo.diverged self)"
    and "Diverged \<in> set (suppress (solve self))"
    and "trajectory_at (SolveInfo.converged self) (- 1) = Some c"
    and "\<not> all_t c"
    and "NotConverged \<notin> set (suppress (solve self))"
  shows "convergence_check self only_warn st =
           (if only_warn then (Inr (), warn (ConvergenceWarning (msg self)) st)
            else (Inl (ConvergenceError NotConverged self), st))"
  using assms
  by (simp add: convergence_check_def check_diverged_def check_converged_def)

theorem convergence_check_sequential_witness:
  "convergence_check diverged_info False demo_state
     = (Inl (ConvergenceError NotConverged diverged_info), demo_state)
   \<and> convergence_check diverged_info True demo_state
     = (Inr (), warn (ConvergenceWarning (msg diverged_info)) demo_state)"
  using convergence_check_sequential [of diverged_info "Values [] [[False]]" False demo_state]
    convergence_check_sequential [of diverged_info "Values [] [[False]]" True demo_state]
  by (simp add: diverged_info_def first_info_def demo_solve_def all_available_def any_t_def all_t_def)

end
